theory Spec2Isabelle
  imports Complex_Main
begin

section \<open>Product performance optimizer: analyzers and orchestrator\<close>

text \<open>
  The analyzers compute on pandas frames of floating-point columns. A frame is modelled as
  the list of its rows, a row as a record, and a number as an exact rational; a cell that
  pandas holds as NaN is \<open>None\<close> in a column of type \<open>rat option\<close>. Comparisons with NaN
  are false, as in Python.
\<close>

subsection \<open>Shared helpers\<close>

text \<open>
  \<open>DataFrame.sort_values\<close> on one column: the rows ordered by the relation \<open>le\<close>. The
  relative order pandas gives to rows with equal keys is not relied on anywhere below.
\<close>

fun insert_by :: "('a \<Rightarrow> 'a \<Rightarrow> bool) \<Rightarrow> 'a \<Rightarrow> 'a list \<Rightarrow> 'a list" where
  "insert_by le x [] = [x]"
| "insert_by le x (y # ys) = (if le x y then x # y # ys else y # insert_by le x ys)"

definition sort_values :: "('a \<Rightarrow> 'a \<Rightarrow> bool) \<Rightarrow> 'a list \<Rightarrow> 'a list" where
  "sort_values le xs = foldr (insert_by le) xs []"

text \<open>
  The exceptions the modelled code can raise. A function that can raise returns
  \<open>error + 'a\<close>, with \<open>Inl\<close> for the exception.
\<close>

datatype error = KeyError string | ValueError string

text \<open>
  Where the presence of a column decides what the code does, a frame carries its column
  labels beside its rows. \<open>pd.DataFrame()\<close> has neither columns nor rows; \<open>df.empty\<close>
  holds when either axis has length zero; \<open>df[c]\<close> raises \<open>KeyError\<close> for a label that is
  not a column; \<open>pd.DataFrame(records)\<close> of an empty list of records is \<open>pd.DataFrame()\<close>.
\<close>

datatype 'r frame = Frame (columns: "string list") (rows: "'r list")

definition empty_frame :: "'r frame" where
  "empty_frame = Frame [] []"

definition df_empty :: "'r frame \<Rightarrow> bool" where
  "df_empty df = (columns df = [] \<or> rows df = [])"

definition getitem :: "'r frame \<Rightarrow> string \<Rightarrow> error + 'r list" where
  "getitem df c = (if c \<in> set (columns df) then Inr (rows df) else Inl (KeyError c))"

definition from_records :: "string list \<Rightarrow> 'r list \<Rightarrow> 'r frame" where
  "from_records cols rs = (if rs = [] then empty_frame else Frame cols rs)"

text \<open>\<open>Series.unique()\<close>: the distinct values in order of first appearance.\<close>

fun unique :: "'a list \<Rightarrow> 'a list" where
  "unique [] = []"
| "unique (x # xs) = x # unique (filter (\<lambda>y. y \<noteq> x) xs)"

text \<open>\<open>itertools.combinations(xs, 2)\<close>.\<close>

fun combinations2 :: "'a list \<Rightarrow> ('a \<times> 'a) list" where
  "combinations2 [] = []"
| "combinations2 (x # xs) = map (Pair x) xs @ combinations2 xs"

text \<open>A row of the sales table (the \<open>date\<close> column is not read by the code modelled here).\<close>

record sale =
  s_sku :: string
  s_revenue :: rat
  s_units :: rat
  s_fees :: rat
  s_shipping_cost :: rat
  s_returns :: rat

text \<open>
  \<open>sales_data.groupby('sku').agg({col: 'sum'})\<close> read at one sku: the sum of the column over
  the sku's rows, and no row at all (\<open>None\<close>) for a sku without sales. A left merge on the
  sku then gives NaN for such a sku.
\<close>

definition group_sum :: "(sale \<Rightarrow> rat) \<Rightarrow> sale list \<Rightarrow> string \<Rightarrow> rat option" where
  "group_sum col sales_data k =
     (if k \<in> set (map s_sku sales_data)
      then Some (sum_list (map col (filter (\<lambda>s. s_sku s = k) sales_data)))
      else None)"

text \<open>Comparisons of floats that may be NaN: false as soon as one side is NaN.\<close>

fun nan_ge :: "rat option \<Rightarrow> rat option \<Rightarrow> bool" where
  "nan_ge (Some a) (Some b) = (a \<ge> b)"
| "nan_ge _ _ = False"

fun nan_lt :: "rat option \<Rightarrow> rat option \<Rightarrow> bool" where
  "nan_lt (Some a) (Some b) = (a < b)"
| "nan_lt _ _ = False"

fun nan_le :: "rat option \<Rightarrow> rat option \<Rightarrow> bool" where
  "nan_le (Some a) (Some b) = (a \<le> b)"
| "nan_le _ _ = False"

text \<open>Python's builtin \<open>min(a, b)\<close>: \<open>b\<close> if \<open>b < a\<close>, else \<open>a\<close>.\<close>

definition py_min :: "rat option \<Rightarrow> rat option \<Rightarrow> rat option" where
  "py_min a b = (if nan_lt b a then b else a)"

text \<open>\<open>Series.sum()\<close> skips NaN.\<close>

definition nansum :: "rat option list \<Rightarrow> rat" where
  "nansum xs = sum_list (map (\<lambda>x. case x of None \<Rightarrow> 0 | Some v \<Rightarrow> v) xs)"

text \<open>
  A recommendation is a dict with the keys \<open>type\<close>, \<open>priority\<close>, \<open>action\<close>, \<open>impact\<close> and
  \<open>details\<close>. The three texts are formatted from numbers and names; the model keeps the
  skus they name in \<open>subject\<close> instead.
\<close>

record recommendation =
  rec_type :: string
  priority :: string
  subject :: "string list"

subsection \<open>Slow mover detection (analyzers/slow\_mover\_detection.py)\<close>

text \<open>\<open>days_of_supply\<close> is a finite float or \<open>np.inf\<close>.\<close>

datatype days = Fin rat | PInf

datatype urgency = Critical | High | Medium

record velocity_row =
  vr_sku :: string
  vr_units_per_day :: rat
  vr_quantity_on_hand :: rat
  vr_cost_per_unit :: rat

record supply_row =
  sr_sku :: string
  sr_units_per_day :: rat
  sr_quantity_on_hand :: rat
  sr_days_of_supply :: days
  sr_inventory_value :: rat

record slow_mover =
  sm_row :: supply_row
  sm_urgency :: urgency

text \<open>\<open>_calculate_days_of_supply\<close>: \<open>np.where(units_per_day > 0, quantity / units_per_day, np.inf)\<close>.\<close>

definition days_of_supply_row :: "velocity_row \<Rightarrow> supply_row" where
  "days_of_supply_row v =
     \<lparr> sr_sku = vr_sku v,
       sr_units_per_day = vr_units_per_day v,
       sr_quantity_on_hand = vr_quantity_on_hand v,
       sr_days_of_supply =
         (if vr_units_per_day v > 0 then Fin (vr_quantity_on_hand v / vr_units_per_day v)
          else PInf),
       sr_inventory_value = vr_quantity_on_hand v * vr_cost_per_unit v \<rparr>"

definition calculate_days_of_supply :: "velocity_row list \<Rightarrow> supply_row list" where
  "calculate_days_of_supply velocity = map days_of_supply_row velocity"

text \<open>\<open>days >= n\<close> for a float that may be infinite.\<close>

fun days_ge :: "days \<Rightarrow> int \<Rightarrow> bool" where
  "days_ge PInf n = True"
| "days_ge (Fin d) n = (d \<ge> of_int n)"

fun isinf :: "days \<Rightarrow> bool" where
  "isinf PInf = True"
| "isinf (Fin d) = False"

text \<open>\<open>_get_urgency\<close>, with the branches in the order of the source.\<close>

definition get_urgency :: "int \<Rightarrow> days \<Rightarrow> urgency" where
  "get_urgency days_threshold d =
     (if isinf d then Critical
      else if days_ge d 365 then Critical
      else if days_ge d days_threshold then High
      else Medium)"

text \<open>Descending order of \<open>days_of_supply\<close> (\<open>ascending=False\<close>).\<close>

fun days_desc :: "days \<Rightarrow> days \<Rightarrow> bool" where
  "days_desc PInf b = True"
| "days_desc (Fin x) PInf = False"
| "days_desc (Fin x) (Fin y) = (x \<ge> y)"

text \<open>\<open>_identify_slow_movers\<close>: filter, sort worst first, add the urgency column.\<close>

definition identify_slow_movers :: "int \<Rightarrow> supply_row list \<Rightarrow> slow_mover list" where
  "identify_slow_movers days_threshold days_supply =
     map (\<lambda>r. \<lparr> sm_row = r, sm_urgency = get_urgency days_threshold (sr_days_of_supply r) \<rparr>)
       (sort_values (\<lambda>a b. days_desc (sr_days_of_supply a) (sr_days_of_supply b))
          (filter (\<lambda>r. days_ge (sr_days_of_supply r) days_threshold
                        \<or> sr_days_of_supply r = PInf) days_supply))"

subsection \<open>Cannibalization (analyzers/cannibalization.py)\<close>

record purchase =
  customer_id :: string
  p_sku :: string

text \<open>\<open>customer_skus\<close>: the dict from a customer to the set of skus the customer bought.\<close>

definition customer_skus :: "purchase list \<Rightarrow> string \<Rightarrow> string set" where
  "customer_skus data c = set (map p_sku (filter (\<lambda>p. customer_id p = c) data))"

text \<open>The inner loop over \<open>customer_skus.items()\<close>: the customers whose set holds the sku.\<close>

definition customers_of :: "purchase list \<Rightarrow> string \<Rightarrow> string set" where
  "customers_of data k =
     Set.filter (\<lambda>c. k \<in> customer_skus data c) (set (map customer_id data))"

record overlap_row =
  sku1 :: string
  sku2 :: string
  customers_sku1 :: nat
  customers_sku2 :: nat
  overlap_count :: nat
  overlap_pct :: rat

text \<open>The body of the loop over the pairs: zero or one record appended.\<close>

definition overlap_pair :: "purchase list \<Rightarrow> string \<times> string \<Rightarrow> overlap_row list" where
  "overlap_pair data p =
     (let c1 = customers_of data (fst p); c2 = customers_of data (snd p) in
      if card c1 > 0 \<or> card c2 > 0 then
        (let overlap = card (c1 \<inter> c2); total_unique = card (c1 \<union> c2) in
         if total_unique > 0 then
           [\<lparr> sku1 = fst p, sku2 = snd p, customers_sku1 = card c1, customers_sku2 = card c2,
               overlap_count = overlap, overlap_pct = of_nat overlap / of_nat total_unique \<rparr>]
         else [])
      else [])"

definition overlap_columns :: "string list" where
  "overlap_columns = [''sku1'', ''sku2'', ''customers_sku1'', ''customers_sku2'',
     ''overlap_count'', ''overlap_pct'']"

text \<open>\<open>_calculate_overlap_matrix\<close>.\<close>

definition calculate_overlap_matrix :: "purchase list \<Rightarrow> overlap_row frame" where
  "calculate_overlap_matrix customer_overlap_data =
     (if customer_overlap_data = [] then empty_frame
      else from_records overlap_columns
             (concat (map (overlap_pair customer_overlap_data)
                (combinations2 (unique (map p_sku customer_overlap_data))))))"

record cannibal_row =
  pair :: overlap_row
  revenue1 :: "rat option"
  units1 :: "rat option"
  revenue2 :: "rat option"
  units2 :: "rat option"
  stronger_sku :: string
  weaker_sku :: string

text \<open>
  The two left merges with the sales summary and the two row-wise \<open>apply\<close> calls that
  name the stronger and the weaker sku, for one row.
\<close>

definition merge_sales :: "sale list \<Rightarrow> overlap_row \<Rightarrow> cannibal_row" where
  "merge_sales sales_data r =
     (let r1 = group_sum s_revenue sales_data (sku1 r);
          r2 = group_sum s_revenue sales_data (sku2 r) in
      \<lparr> pair = r,
        revenue1 = r1,
        units1 = group_sum s_units sales_data (sku1 r),
        revenue2 = r2,
        units2 = group_sum s_units sales_data (sku2 r),
        stronger_sku = (if nan_ge r1 r2 then sku1 r else sku2 r),
        weaker_sku = (if nan_ge r1 r2 then sku2 r else sku1 r) \<rparr>)"

definition merged_columns :: "string list" where
  "merged_columns =
     [''revenue1'', ''units1'', ''revenue2'', ''units2'', ''stronger_sku'', ''weaker_sku'']"

text \<open>
  \<open>_identify_cannibalization\<close>. When the threshold leaves no row, the frame is modelled
  with the new columns and no rows; what a row-wise \<open>apply\<close> assigns on a frame without
  rows depends on the pandas version, and no statement below is about that case.
\<close>

definition identify_cannibalization ::
  "rat \<Rightarrow> overlap_row frame \<Rightarrow> sale list \<Rightarrow> error + cannibal_row frame" where
  "identify_cannibalization overlap_threshold overlap_matrix sales_data =
     (if df_empty overlap_matrix then Inr empty_frame
      else case getitem overlap_matrix ''overlap_pct'' of
        Inl e \<Rightarrow> Inl e
      | Inr rs \<Rightarrow>
          Inr (Frame (columns overlap_matrix @ merged_columns)
                (sort_values (\<lambda>a b. overlap_pct (pair a) \<ge> overlap_pct (pair b))
                   (map (merge_sales sales_data)
                      (filter (\<lambda>r. overlap_pct r \<ge> overlap_threshold) rs)))))"

record impact_row =
  cannibal :: cannibal_row
  revenue_at_risk :: "rat option"

record impact_analysis =
  total_revenue_at_risk :: rat
  average_overlap :: rat
  potential_consolidation_savings :: rat

text \<open>
  \<open>_calculate_impact\<close> adds the column \<open>revenue_at_risk\<close> to the frame it is given (when
  the frame has rows) and returns the totals; the model returns both.
\<close>

definition calculate_impact :: "cannibal_row frame \<Rightarrow> impact_row frame \<times> impact_analysis" where
  "calculate_impact cannibal_pairs =
     (if length (rows cannibal_pairs) = 0 then
        (Frame (columns cannibal_pairs) [],
         \<lparr> total_revenue_at_risk = 0, average_overlap = 0,
           potential_consolidation_savings = 0 \<rparr>)
      else
        (let rs = map (\<lambda>r. \<lparr> cannibal = r,
                              revenue_at_risk = py_min (revenue1 r) (revenue2 r) \<rparr>)
                    (rows cannibal_pairs);
             total = nansum (map revenue_at_risk rs) in
         (Frame (columns cannibal_pairs @ [''revenue_at_risk'']) rs,
          \<lparr> total_revenue_at_risk = total,
            average_overlap =
              sum_list (map (\<lambda>r. overlap_pct (pair r)) (rows cannibal_pairs))
                / of_nat (length (rows cannibal_pairs)),
            potential_consolidation_savings = total * (20 / 100) \<rparr>)))"

definition pair_recommendation :: "impact_row \<Rightarrow> recommendation" where
  "pair_recommendation r =
     \<lparr> rec_type = ''cannibalization_pair'',
       priority = (if overlap_pct (pair (cannibal r)) \<ge> 90 / 100 then ''high'' else ''medium''),
       subject = [sku1 (pair (cannibal r)), sku2 (pair (cannibal r)),
                  stronger_sku (cannibal r), weaker_sku (cannibal r)] \<rparr>"

text \<open>\<open>_generate_recommendations\<close> (the product names it looks up are not modelled).\<close>

definition cannibal_recommendations :: "impact_row frame \<Rightarrow> recommendation list" where
  "cannibal_recommendations cannibal_pairs =
     (if length (rows cannibal_pairs) = 0 then []
      else \<lparr> rec_type = ''cannibalization_warning'', priority = ''high'', subject = [] \<rparr>
           # map pair_recommendation (take 10 (rows cannibal_pairs)))"

record cannibal_summary =
  total_pairs_analyzed :: nat
  cannibalization_pairs_count :: nat
  high_risk_pairs :: nat

record cannibal_result =
  overlap_matrix :: "overlap_row frame"
  cannibalization_pairs :: "impact_row frame"
  impact_analysis :: impact_analysis
  cn_recommendations :: "recommendation list"
  cn_summary :: cannibal_summary

text \<open>
  \<open>CannibalizationAnalyzer.analyze\<close>. The summary reads
  \<open>cannibal_pairs['overlap_pct']\<close> whatever the frame is.
\<close>

definition cannibalization_analyze ::
  "rat \<Rightarrow> purchase list \<Rightarrow> sale list \<Rightarrow> error + cannibal_result" where
  "cannibalization_analyze overlap_threshold customer_overlap_data sales_data =
     (let om = calculate_overlap_matrix customer_overlap_data in
      case identify_cannibalization overlap_threshold om sales_data of
        Inl e \<Rightarrow> Inl e
      | Inr cp \<Rightarrow>
          (let cp' = fst (calculate_impact cp);
               impact = snd (calculate_impact cp);
               recs = cannibal_recommendations cp' in
           case getitem cp' ''overlap_pct'' of
             Inl e \<Rightarrow> Inl e
           | Inr rs \<Rightarrow>
               Inr \<lparr> overlap_matrix = om,
                     cannibalization_pairs = cp',
                     impact_analysis = impact,
                     cn_recommendations = recs,
                     cn_summary =
                       \<lparr> total_pairs_analyzed = length (rows om),
                         cannibalization_pairs_count = length (rows cp'),
                         high_risk_pairs =
                           length (filter (\<lambda>r. overlap_pct (pair (cannibal r))
                                                  \<ge> overlap_threshold) rs) \<rparr> \<rparr>))"

text \<open>What a result reports for each pair: stronger sku, weaker sku, revenue at risk.\<close>

definition reported_pairs :: "cannibal_result \<Rightarrow> (string \<times> string \<times> rat option) list" where
  "reported_pairs res =
     map (\<lambda>r. (stronger_sku (cannibal r), weaker_sku (cannibal r), revenue_at_risk r))
       (rows (cannibalization_pairs res))"

text \<open>
  The total revenue of a sku in the words of the specification: the sum of the revenue of
  its sales records, which is 0 for a sku without sales.
\<close>

definition total_revenue :: "sale list \<Rightarrow> string \<Rightarrow> rat" where
  "total_revenue sales_data k =
     sum_list (map s_revenue (filter (\<lambda>s. s_sku s = k) sales_data))"

subsection \<open>SKU rationalization (analyzers/sku\_rationalization.py)\<close>

record inventory =
  i_sku :: string
  i_quantity_on_hand :: rat
  i_cost_per_unit :: rat

record merged_row =
  sku :: string
  revenue :: rat
  units :: rat
  fees :: "rat option"
  shipping_cost :: "rat option"
  quantity_on_hand :: rat
  cost_per_unit :: rat

definition sku_total :: "(sale \<Rightarrow> rat) \<Rightarrow> sale list \<Rightarrow> string \<Rightarrow> rat" where
  "sku_total col sales_data k = sum_list (map col (filter (\<lambda>s. s_sku s = k) sales_data))"

text \<open>
  \<open>_merge_data\<close>: the sales summed by sku, outer-merged with the inventory, left-merged
  with the product table (of which only the sku column matters here: a row is repeated
  once for each product row of its sku), then \<open>fillna(0)\<close> on revenue, units, quantity on
  hand and cost per unit. The fees and the shipping cost of a sku that is in the
  inventory only stay NaN. The order of the merged rows is not used by what follows.
\<close>

definition merge_data :: "sale list \<Rightarrow> inventory list \<Rightarrow> string list \<Rightarrow> merged_row list" where
  "merge_data sales_data inventory_data product_skus =
     (let keys = unique (map s_sku sales_data);
          summed = (\<lambda>k q c.
            \<lparr> sku = k, revenue = sku_total s_revenue sales_data k,
              units = sku_total s_units sales_data k,
              fees = Some (sku_total s_fees sales_data k),
              shipping_cost = Some (sku_total s_shipping_cost sales_data k),
              quantity_on_hand = q, cost_per_unit = c \<rparr>);
          left = concat (map (\<lambda>k.
            (let ms = filter (\<lambda>i. i_sku i = k) inventory_data in
             if ms = [] then [summed k 0 0]
             else map (\<lambda>i. summed k (i_quantity_on_hand i) (i_cost_per_unit i)) ms)) keys);
          right = map (\<lambda>i.
            \<lparr> sku = i_sku i, revenue = 0, units = 0, fees = None, shipping_cost = None,
              quantity_on_hand = i_quantity_on_hand i, cost_per_unit = i_cost_per_unit i \<rparr>)
            (filter (\<lambda>i. i_sku i \<notin> set keys) inventory_data)
      in concat (map (\<lambda>r. replicate (max 1 (count_list product_skus (sku r))) r)
                  (left @ right)))"

definition nan_minus :: "rat option \<Rightarrow> rat option \<Rightarrow> rat option" where
  "nan_minus a b = (case a of None \<Rightarrow> None | Some x \<Rightarrow> map_option (\<lambda>y. x - y) b)"

definition nan_plus :: "rat option \<Rightarrow> rat option \<Rightarrow> rat option" where
  "nan_plus a b = (case a of None \<Rightarrow> None | Some x \<Rightarrow> map_option (\<lambda>y. x + y) b)"

text \<open>
  \<open>Series.rank(pct=True, ascending=False)\<close>, with the default \<open>method='average'\<close> and
  \<open>na_option='keep'\<close>: the rank of a value is the mean of the positions its ties take when
  the values are laid out from the largest to the smallest, that is (number of larger
  values) + (number of equal values + 1) / 2, divided by the number of values that are
  not NaN. NaN keeps NaN.
\<close>

definition rank_pct_desc :: "rat option list \<Rightarrow> rat option list" where
  "rank_pct_desc xs =
     (let vs = List.map_filter id xs in
      map (map_option (\<lambda>v.
             (of_nat (length (filter (\<lambda>w. w > v) vs))
                + (of_nat (length (filter (\<lambda>w. w = v) vs)) + 1) / 2)
             / of_nat (length vs))) xs)"

record metrics_row =
  merged :: merged_row
  profit :: "rat option"
  profit_margin :: "rat option"
  working_capital :: rat
  revenue_per_unit :: rat
  velocity_score :: rat
  composite_score :: "rat option"

definition profit_of :: "merged_row \<Rightarrow> rat option" where
  "profit_of r = nan_minus (nan_minus (Some (revenue r)) (fees r)) (shipping_cost r)"

text \<open>\<open>_calculate_metrics\<close>.\<close>

definition calculate_metrics :: "merged_row list \<Rightarrow> metrics_row list" where
  "calculate_metrics rs =
     (let revenue_rank = rank_pct_desc (map (\<lambda>r. Some (revenue r)) rs);
          profit_rank = rank_pct_desc (map profit_of rs);
          velocity_rank = rank_pct_desc (map (\<lambda>r. Some (units r)) rs)
      in map (\<lambda>i.
           \<lparr> merged = rs ! i,
             profit = profit_of (rs ! i),
             profit_margin =
               (if revenue (rs ! i) > 0
                then map_option (\<lambda>p. p / revenue (rs ! i)) (profit_of (rs ! i))
                else Some 0),
             working_capital = quantity_on_hand (rs ! i) * cost_per_unit (rs ! i),
             revenue_per_unit =
               (if units (rs ! i) > 0 then revenue (rs ! i) / units (rs ! i) else 0),
             velocity_score = units (rs ! i),
             composite_score =
               nan_plus
                 (nan_plus (map_option (\<lambda>x. x * (4 / 10)) (revenue_rank ! i))
                           (map_option (\<lambda>x. x * (4 / 10)) (profit_rank ! i)))
                 (map_option (\<lambda>x. x * (2 / 10)) (velocity_rank ! i)) \<rparr>)
         [0 ..< length rs])"

text \<open>
  \<open>np.percentile(a, q)\<close> with the default linear interpolation, for a list without NaN
  that is not empty and \<open>0 \<le> q \<le> 100\<close>: the virtual index \<open>(n - 1) * q / 100\<close> into the
  sorted values, interpolated between its two neighbours.
\<close>

definition interpolate :: "rat list \<Rightarrow> rat \<Rightarrow> rat" where
  "interpolate s x =
     (let lo = nat \<lfloor>x\<rfloor>; hi = min (lo + 1) (length s - 1) in
      s ! lo + (x - of_nat lo) * (s ! hi - s ! lo))"

definition percentile_linear :: "rat list \<Rightarrow> int \<Rightarrow> rat" where
  "percentile_linear a q = interpolate (sort a) (of_nat (length a - 1) * (of_int q / 100))"

text \<open>
  \<open>np.percentile\<close> on floats that may be NaN: a \<open>q\<close> outside [0, 100] raises \<open>ValueError\<close>,
  and one NaN among the values makes the result NaN.
\<close>

definition np_percentile :: "rat option list \<Rightarrow> int \<Rightarrow> error + rat option" where
  "np_percentile a q =
     (if q < 0 \<or> q > 100 then Inl (ValueError ''Percentiles must be in the range [0, 100]'')
      else if None \<in> set a then Inr None
      else Inr (Some (percentile_linear (List.map_filter id a) q)))"

fun join :: "string \<Rightarrow> string list \<Rightarrow> string" where
  "join sep [] = []"
| "join sep [x] = x"
| "join sep (x # y # ys) = x @ sep @ join sep (y # ys)"

text \<open>\<open>_get_zombie_reason\<close>.\<close>

definition get_zombie_reason :: "metrics_row \<Rightarrow> string" where
  "get_zombie_reason row =
     (let reasons =
        (if revenue (merged row) = 0 then [''No revenue'']
         else if revenue (merged row) < 100 then [''Very low revenue''] else [])
        @ (if nan_lt (profit row) (Some 0) then [''Negative profit'']
           else if nan_lt (profit_margin row) (Some (1 / 10)) then [''Low profit margin'']
           else [])
        @ (if units (merged row) = 0 then [''No units sold'']
           else if units (merged row) < 5 then [''Very slow moving''] else [])
        @ (if quantity_on_hand (merged row) > 0 \<and> units (merged row) = 0
           then [''Dead inventory''] else [])
      in if reasons \<noteq> [] then join ''; '' reasons else ''Bottom performer'')"

record zombie_row =
  z_metrics :: metrics_row
  z_status :: string
  z_reason :: string

text \<open>
  \<open>_identify_zombies\<close> with the analyzer's \<open>threshold_percentile\<close>. The rows are sorted by
  composite score, worst (lowest) first.
\<close>

definition identify_zombies :: "int \<Rightarrow> metrics_row list \<Rightarrow> error + zombie_row list" where
  "identify_zombies threshold_percentile metrics =
     (let active_skus =
        filter (\<lambda>m. revenue (merged m) > 0 \<or> quantity_on_hand (merged m) > 0) metrics in
      if length active_skus = 0 then Inr []
      else case np_percentile (map composite_score active_skus) threshold_percentile of
        Inl e \<Rightarrow> Inl e
      | Inr threshold \<Rightarrow>
          Inr (map (\<lambda>m. \<lparr> z_metrics = m, z_status = ''zombie'', z_reason = get_zombie_reason m \<rparr>)
                 (sort_values (\<lambda>a b. nan_le (composite_score a) (composite_score b))
                    (filter (\<lambda>m. nan_le (composite_score m) threshold) active_skus))))"

record financial_impact =
  working_capital_freed :: rat
  annual_revenue_lost :: rat
  annual_profit_lost :: rat
  net_benefit :: rat

text \<open>\<open>_calculate_financial_impact\<close>.\<close>

definition calculate_financial_impact :: "zombie_row list \<Rightarrow> financial_impact" where
  "calculate_financial_impact zombies =
     (if length zombies = 0 then
        \<lparr> working_capital_freed = 0, annual_revenue_lost = 0, annual_profit_lost = 0,
          net_benefit = 0 \<rparr>
      else
        (let freed = sum_list (map (\<lambda>z. working_capital (z_metrics z)) zombies);
             revenue_lost = sum_list (map (\<lambda>z. revenue (merged (z_metrics z))) zombies) * 12;
             profit_lost = nansum (map (\<lambda>z. profit (z_metrics z)) zombies) * 12
         in \<lparr> working_capital_freed = freed, annual_revenue_lost = revenue_lost,
              annual_profit_lost = profit_lost, net_benefit = freed - profit_lost \<rparr>))"

text \<open>\<open>_generate_recommendations\<close> of the SKU rationalization analyzer.\<close>

definition sku_recommendations :: "zombie_row list \<Rightarrow> recommendation list" where
  "sku_recommendations zombies =
     (if length zombies = 0 then []
      else \<lparr> rec_type = ''discontinue'', priority = ''high'', subject = [] \<rparr>
           # map (\<lambda>z. \<lparr> rec_type = ''discontinue_sku'', priority = ''high'',
                         subject = [sku (merged (z_metrics z))] \<rparr>) (take 10 zombies))"

record sku_summary =
  total_zombies :: nat
  capital_freed :: rat
  bottom_percentile :: int

record sku_result =
  zombie_skus :: "zombie_row list"
  metrics :: "metrics_row list"
  sk_financial_impact :: financial_impact
  sk_recommendations :: "recommendation list"
  sk_summary :: sku_summary

text \<open>\<open>SKURationalizationAnalyzer.analyze\<close>.\<close>

definition sku_analyze ::
  "int \<Rightarrow> sale list \<Rightarrow> inventory list \<Rightarrow> string list \<Rightarrow> error + sku_result" where
  "sku_analyze threshold_percentile sales_data inventory_data product_skus =
     (let ms = calculate_metrics (merge_data sales_data inventory_data product_skus) in
      case identify_zombies threshold_percentile ms of
        Inl e \<Rightarrow> Inl e
      | Inr zombies \<Rightarrow>
          (let impact = calculate_financial_impact zombies in
           Inr \<lparr> zombie_skus = zombies,
                 metrics = ms,
                 sk_financial_impact = impact,
                 sk_recommendations = sku_recommendations zombies,
                 sk_summary =
                   \<lparr> total_zombies = length zombies,
                     capital_freed = working_capital_freed impact,
                     bottom_percentile = threshold_percentile \<rparr> \<rparr>))"

text \<open>The skus of a frame of zombies.\<close>

definition zombie_sku_list :: "zombie_row list \<Rightarrow> string list" where
  "zombie_sku_list zs = map (\<lambda>z. sku (merged (z_metrics z))) zs"

subsection \<open>Contribution margin (analyzers/contribution\_margin.py)\<close>

record margin_merged =
  cm_sku :: string
  cm_revenue :: rat
  cm_units :: rat
  cm_fees :: rat
  cm_shipping_cost :: rat
  cm_returns :: rat
  cm_cost_per_unit :: rat

text \<open>
  \<open>_merge_data\<close> of the margin analyzer: the sales summed by sku, left-merged with the
  cost per unit of the inventory (one row for each inventory row of the sku, one row with
  NaN when there is none) and with the product table (only its sku column matters here),
  then \<open>fillna(0)\<close> on the cost per unit and the returns.
\<close>

definition margin_merge_data ::
  "sale list \<Rightarrow> inventory list \<Rightarrow> string list \<Rightarrow> margin_merged list" where
  "margin_merge_data sales_data inventory_data product_skus =
     (let keys = unique (map s_sku sales_data);
          summed = (\<lambda>k c.
            \<lparr> cm_sku = k, cm_revenue = sku_total s_revenue sales_data k,
              cm_units = sku_total s_units sales_data k,
              cm_fees = sku_total s_fees sales_data k,
              cm_shipping_cost = sku_total s_shipping_cost sales_data k,
              cm_returns = sku_total s_returns sales_data k,
              cm_cost_per_unit = c \<rparr>);
          left = concat (map (\<lambda>k.
            (let ms = filter (\<lambda>i. i_sku i = k) inventory_data in
             if ms = [] then [summed k 0]
             else map (\<lambda>i. summed k (i_cost_per_unit i)) ms)) keys)
      in concat (map (\<lambda>r. replicate (max 1 (count_list product_skus (cm_sku r))) r) left))"

record margin_row =
  base :: margin_merged
  cogs :: rat
  return_cost :: rat
  total_costs :: rat
  contribution_margin :: rat
  contribution_margin_pct :: rat
  profit_per_unit :: rat
  total_profit :: rat

text \<open>
  \<open>_calculate_contribution_margins\<close>, one row. \<open>np.where(c, a / b, 0)\<close> is 0 where the
  condition fails, whatever the division gives there.
\<close>

definition margin_of :: "margin_merged \<Rightarrow> margin_row" where
  "margin_of r =
     (let cogs = cm_units r * cm_cost_per_unit r;
          return_cost = cm_returns r * (5 / 10);
          total_costs = cm_fees r + cm_shipping_cost r + cogs + return_cost;
          contribution_margin = cm_revenue r - total_costs
      in \<lparr> base = r,
           cogs = cogs,
           return_cost = return_cost,
           total_costs = total_costs,
           contribution_margin = contribution_margin,
           contribution_margin_pct =
             (if cm_revenue r > 0 then contribution_margin / cm_revenue r else 0),
           profit_per_unit =
             (if cm_units r > 0 then contribution_margin / cm_units r else 0),
           total_profit = contribution_margin \<rparr>)"

definition calculate_contribution_margins :: "margin_merged list \<Rightarrow> margin_row list" where
  "calculate_contribution_margins rs = map margin_of rs"

subsection \<open>Orchestrator (orchestrator.py)\<close>

text \<open>
  The results dict in insertion order. A value is a scalar (platform, analysis date,
  period) or the dict of an analysis, with or without the key \<open>recommendations\<close>.
\<close>

datatype result_value = Scalar | Analysis "recommendation list option"

record consolidated =
  c_rec :: recommendation
  source_analysis :: string

text \<open>The first loop of \<open>_consolidate_recommendations\<close>: tag and append, in order.\<close>

definition tag_recommendations :: "string \<times> result_value \<Rightarrow> consolidated list" where
  "tag_recommendations entry =
     (case snd entry of
        Analysis (Some recs) \<Rightarrow> map (\<lambda>r. \<lparr> c_rec = r, source_analysis = fst entry \<rparr>) recs
      | _ \<Rightarrow> [])"

definition collect_recommendations :: "(string \<times> result_value) list \<Rightarrow> consolidated list" where
  "collect_recommendations results = concat (map tag_recommendations results)"

definition priority_order :: "string \<rightharpoonup> nat" where
  "priority_order =
     map_of [(''critical'', 0), (''high'', 1), (''medium'', 2), (''low'', 3)]"

text \<open>The sort key \<open>priority_order.get(x.get('priority', 'low'), 3)\<close>.\<close>

definition priority_key :: "consolidated \<Rightarrow> nat" where
  "priority_key x = (case priority_order (priority (c_rec x)) of Some n \<Rightarrow> n | None \<Rightarrow> 3)"

text \<open>
  \<open>_consolidate_recommendations\<close>. \<open>list.sort(key=...)\<close> is stable by the language
  definition; it is modelled by the stable insertion sort \<open>sort_key\<close>.
\<close>

definition consolidate_recommendations ::
  "(string \<times> result_value) list \<Rightarrow> consolidated list" where
  "consolidate_recommendations results =
     sort_key priority_key (collect_recommendations results)"

datatype status = Green | Yellow | Red

record status_entry =
  se_sku :: string
  status :: status
  issues :: "string list"

text \<open>
  What \<open>_generate_traffic_light_status\<close> reads from the results: the skus of the rows of
  the zombie frame, of the money losers, of the slow movers with their urgency, and of the
  underperforming new products, each in row order.
\<close>

record status_inputs =
  in_zombies :: "string list"
  in_losers :: "string list"
  in_slow_movers :: "(string \<times> urgency) list"
  in_underperformers :: "string list"

text \<open>One entry per sku, green and without issues.\<close>

definition init_status :: "string list \<Rightarrow> (string \<rightharpoonup> status_entry)" where
  "init_status all_skus =
     fold (\<lambda>k m. m(k \<mapsto> \<lparr> se_sku = k, status = Green, issues = [] \<rparr>)) all_skus Map.empty"

text \<open>The bodies of the four loops, for one row with sku \<open>k\<close>.\<close>

definition mark_zombie :: "(string \<rightharpoonup> status_entry) \<Rightarrow> string \<Rightarrow> (string \<rightharpoonup> status_entry)" where
  "mark_zombie m k =
     (case m k of
        None \<Rightarrow> m
      | Some e \<Rightarrow> m(k \<mapsto> e\<lparr> status := Red, issues := issues e @ [''Zombie product''] \<rparr>))"

definition mark_loser :: "(string \<rightharpoonup> status_entry) \<Rightarrow> string \<Rightarrow> (string \<rightharpoonup> status_entry)" where
  "mark_loser m k =
     (case m k of
        None \<Rightarrow> m
      | Some e \<Rightarrow>
          m(k \<mapsto> e\<lparr> status := (if status e \<noteq> Red then Yellow else status e),
                      issues := issues e @ [''Losing money''] \<rparr>))"

definition mark_critical :: "(string \<rightharpoonup> status_entry) \<Rightarrow> string \<Rightarrow> (string \<rightharpoonup> status_entry)" where
  "mark_critical m k =
     (case m k of
        None \<Rightarrow> m
      | Some e \<Rightarrow> m(k \<mapsto> e\<lparr> status := Red, issues := issues e @ [''Critical slow mover''] \<rparr>))"

definition mark_underperformer ::
  "(string \<rightharpoonup> status_entry) \<Rightarrow> string \<Rightarrow> (string \<rightharpoonup> status_entry)" where
  "mark_underperformer m k =
     (case m k of
        None \<Rightarrow> m
      | Some e \<Rightarrow>
          if status e = Green
          then m(k \<mapsto> e\<lparr> status := Yellow,
                           issues := issues e @ [''Underperforming new product''] \<rparr>)
          else m)"

text \<open>The rows \<open>slow_movers[slow_movers['urgency'] == 'critical']\<close>.\<close>

definition critical_skus :: "status_inputs \<Rightarrow> string list" where
  "critical_skus inp = map fst (filter (\<lambda>r. snd r = Critical) (in_slow_movers inp))"

datatype rule = Zombie_rule | Loser_rule | Slow_rule | New_rule

text \<open>One of the four blocks of the function: a loop over the rows of its frame.\<close>

fun apply_rule ::
  "status_inputs \<Rightarrow> rule \<Rightarrow> (string \<rightharpoonup> status_entry) \<Rightarrow> (string \<rightharpoonup> status_entry)" where
  "apply_rule inp Zombie_rule m = fold (\<lambda>k m. mark_zombie m k) (in_zombies inp) m"
| "apply_rule inp Loser_rule m = fold (\<lambda>k m. mark_loser m k) (in_losers inp) m"
| "apply_rule inp Slow_rule m = fold (\<lambda>k m. mark_critical m k) (critical_skus inp) m"
| "apply_rule inp New_rule m = fold (\<lambda>k m. mark_underperformer m k) (in_underperformers inp) m"

text \<open>
  \<open>_generate_traffic_light_status\<close>, up to the last loop, which attaches recommendations
  to the entries by searching their text for the sku and changes neither status nor
  issues.
\<close>

definition generate_traffic_light_status ::
  "string list \<Rightarrow> status_inputs \<Rightarrow> (string \<rightharpoonup> status_entry)" where
  "generate_traffic_light_status all_skus inp =
     apply_rule inp New_rule
       (apply_rule inp Slow_rule
          (apply_rule inp Loser_rule
             (apply_rule inp Zombie_rule (init_status all_skus))))"

text \<open>The same blocks applied in another order.\<close>

definition apply_rules ::
  "status_inputs \<Rightarrow> rule list \<Rightarrow> (string \<rightharpoonup> status_entry) \<Rightarrow> (string \<rightharpoonup> status_entry)" where
  "apply_rules inp order m = fold (apply_rule inp) order m"

text \<open>The severity of a status, and the status of a sku in a status map.\<close>

fun severity :: "status \<Rightarrow> nat" where
  "severity Green = 0"
| "severity Yellow = 1"
| "severity Red = 2"

definition status_of :: "(string \<rightharpoonup> status_entry) \<Rightarrow> string \<Rightarrow> status option" where
  "status_of m k = map_option status (m k)"

text \<open>
  Raising a status to at least the level \<open>c\<close>; the level each block raises to, and the
  skus it applies to.
\<close>

definition escalate :: "status \<Rightarrow> status \<Rightarrow> status" where
  "escalate c s = (if severity s < severity c then c else s)"

fun level :: "rule \<Rightarrow> status" where
  "level Zombie_rule = Red"
| "level Loser_rule = Yellow"
| "level Slow_rule = Red"
| "level New_rule = Yellow"

fun members :: "status_inputs \<Rightarrow> rule \<Rightarrow> string set" where
  "members inp Zombie_rule = set (in_zombies inp)"
| "members inp Loser_rule = set (in_losers inp)"
| "members inp Slow_rule = set (critical_skus inp)"
| "members inp New_rule = set (in_underperformers inp)"

text \<open>The status that results from raising \<open>s\<close> to every level of the set \<open>L\<close>.\<close>

definition final_status :: "status set \<Rightarrow> status \<Rightarrow> status" where
  "final_status L s = (if Red \<in> L then Red else if Yellow \<in> L then escalate Yellow s else s)"

subsection \<open>New product scoring (analyzers/new\_product\_scoring.py)\<close>

text \<open>
  A timestamp is a rational number of days; NaT is \<open>None\<close>. The \<open>.dt.days\<close> of a difference
  of timestamps is its whole number of days, rounded down.
\<close>

record sale_event =
  e_sku :: string
  e_date :: "rat option"
  e_revenue :: rat
  e_units :: rat

record product =
  pr_sku :: string
  pr_launch_date :: "rat option"

record new_product =
  np_sku :: string
  np_launch_date :: rat
  np_days_since_launch :: int

text \<open>Python's \<open>max\<close> of a list of ints, which raises on an empty list.\<close>

definition py_max :: "int list \<Rightarrow> error + int" where
  "py_max xs =
     (case xs of
        [] \<Rightarrow> Inl (ValueError ''max() arg is an empty sequence'')
      | y # ys \<Rightarrow> Inr (fold max ys y))"

text \<open>\<open>_identify_new_products\<close>: the products launched at or after the cutoff.\<close>

definition identify_new_products ::
  "int list \<Rightarrow> product list \<Rightarrow> rat \<Rightarrow> error + new_product list" where
  "identify_new_products analysis_windows product_info current_date =
     (case py_max analysis_windows of
        Inl e \<Rightarrow> Inl e
      | Inr max_window \<Rightarrow>
          Inr (concat (map (\<lambda>p.
                 case pr_launch_date p of
                   None \<Rightarrow> []
                 | Some l \<Rightarrow>
                     if l \<ge> current_date - of_int max_window
                     then [\<lparr> np_sku = pr_sku p, np_launch_date = l,
                             np_days_since_launch = \<lfloor>current_date - l\<rfloor> \<rparr>]
                     else []) product_info)))"

text \<open>
  The left merge of the sales with the launch dates of a product table: one row for each
  product row of the sale's sku, and one row with NaT when there is none.
\<close>

definition merge_launch ::
  "sale_event list \<Rightarrow> (string \<times> rat option) list \<Rightarrow> (sale_event \<times> rat option) list" where
  "merge_launch sales_data launches =
     concat (map (\<lambda>s.
       (let ms = filter (\<lambda>p. fst p = e_sku s) launches in
        if ms = [] then [(s, None)] else map (\<lambda>p. (s, snd p)) ms)) sales_data)"

definition days_since_launch :: "sale_event \<times> rat option \<Rightarrow> int option" where
  "days_since_launch row =
     (case (e_date (fst row), snd row) of
        (Some d, Some l) \<Rightarrow> Some \<lfloor>d - l\<rfloor>
      | _ \<Rightarrow> None)"

text \<open>The rows with \<open>0 \<le> days_since_launch \<le> window\<close>, summed by sku.\<close>

definition in_window :: "int \<Rightarrow> sale_event \<times> rat option \<Rightarrow> bool" where
  "in_window window row =
     (case days_since_launch row of None \<Rightarrow> False | Some n \<Rightarrow> 0 \<le> n \<and> n \<le> window)"

record window_row =
  w_sku :: string
  w_revenue :: rat
  w_units :: rat
  w_window :: int

definition window_summary :: "(sale_event \<times> rat option) list \<Rightarrow> int \<Rightarrow> window_row list" where
  "window_summary merged_rows window =
     (let window_sales = map fst (filter (in_window window) merged_rows) in
      map (\<lambda>k.
        \<lparr> w_sku = k,
          w_revenue = sum_list (map e_revenue (filter (\<lambda>s. e_sku s = k) window_sales)),
          w_units = sum_list (map e_units (filter (\<lambda>s. e_sku s = k) window_sales)),
          w_window = window \<rparr>)
        (unique (map e_sku window_sales)))"

text \<open>
  \<open>Series.quantile(q)\<close> with the default linear interpolation; NaN for an empty series.
\<close>

definition quantile :: "rat list \<Rightarrow> rat \<Rightarrow> rat option" where
  "quantile a q =
     (if a = [] then None
      else Some (interpolate (sort a) (of_nat (length a - 1) * q)))"

record benchmark =
  revenue_p50 :: "rat option"
  revenue_p75 :: "rat option"
  revenue_p90 :: "rat option"
  units_p50 :: "rat option"
  units_p75 :: "rat option"
  units_p90 :: "rat option"

text \<open>
  \<open>_calculate_benchmarks\<close>: for each window, the quantiles over all products with sales
  in the window. The dict is keyed by the window.
\<close>

definition calculate_benchmarks ::
  "int list \<Rightarrow> sale_event list \<Rightarrow> product list \<Rightarrow> (int \<times> benchmark) list" where
  "calculate_benchmarks analysis_windows sales_data product_info =
     (let merged_rows =
            merge_launch sales_data (map (\<lambda>p. (pr_sku p, pr_launch_date p)) product_info) in
      map (\<lambda>window.
        (let s = window_summary merged_rows window in
         (window,
          \<lparr> revenue_p50 = quantile (map w_revenue s) (5 / 10),
            revenue_p75 = quantile (map w_revenue s) (75 / 100),
            revenue_p90 = quantile (map w_revenue s) (9 / 10),
            units_p50 = quantile (map w_units s) (5 / 10),
            units_p75 = quantile (map w_units s) (75 / 100),
            units_p90 = quantile (map w_units s) (9 / 10) \<rparr>))) analysis_windows)"

text \<open>\<open>benchmarks.get(window_key, {})\<close> followed by \<open>bench.get(name, 0)\<close> for each name.\<close>

definition get_benchmark :: "(int \<times> benchmark) list \<Rightarrow> int \<Rightarrow> benchmark" where
  "get_benchmark benchmarks window =
     (case map_of benchmarks window of
        Some b \<Rightarrow> b
      | None \<Rightarrow>
          \<lparr> revenue_p50 = Some 0, revenue_p75 = Some 0, revenue_p90 = Some 0,
            units_p50 = Some 0, units_p75 = Some 0, units_p90 = Some 0 \<rparr>)"

text \<open>
  The score of an actual value against the p50 and p75 benchmarks, as the source computes
  it once for the revenue and once for the units:
  \<open>if p50 > 0: score = min(actual / p75, 1.0) if p75 > 0 else 0\<close>, \<open>else: score = 0\<close>.
\<close>

definition benchmark_score :: "rat \<Rightarrow> rat option \<Rightarrow> rat option \<Rightarrow> rat" where
  "benchmark_score actual p50 p75 =
     (if nan_lt (Some 0) p50 then
        (case p75 of
           Some v \<Rightarrow> if v > 0 then (if 1 < actual / v then 1 else actual / v) else 0
         | None \<Rightarrow> 0)
      else 0)"

record window_result =
  wr_window :: int
  wr_revenue :: rat
  wr_units :: rat
  wr_revenue_score :: rat
  wr_units_score :: rat

text \<open>
  The body of the loop over the windows for one sku: \<open>window_data\<close> are the rows of the
  sku and the window; the first one is read.
\<close>

definition score_window :: "benchmark \<Rightarrow> window_row list \<Rightarrow> int \<Rightarrow> window_result" where
  "score_window bench window_data window =
     (case window_data of
        [] \<Rightarrow>
          \<lparr> wr_window = window, wr_revenue = 0, wr_units = 0,
            wr_revenue_score = 0, wr_units_score = 0 \<rparr>
      | row # _ \<Rightarrow>
          \<lparr> wr_window = window, wr_revenue = w_revenue row, wr_units = w_units row,
            wr_revenue_score =
              benchmark_score (w_revenue row) (revenue_p50 bench) (revenue_p75 bench),
            wr_units_score =
              benchmark_score (w_units row) (units_p50 bench) (units_p75 bench) \<rparr>)"

text \<open>\<open>np.mean\<close> of a list; NaN for an empty one.\<close>

definition mean :: "rat list \<Rightarrow> rat option" where
  "mean xs = (if xs = [] then None else Some (sum_list xs / of_nat (length xs)))"

record sku_score =
  ss_sku :: string
  ss_windows :: "window_result list"
  overall_score :: "rat option"

text \<open>
  \<open>_score_new_products\<close>, up to the merge of the scores back into the product frame and
  the performance category. It runs after \<open>_identify_new_products\<close>, which has raised
  when there is no analysis window.
\<close>

definition score_new_products ::
  "int list \<Rightarrow> new_product list \<Rightarrow> sale_event list \<Rightarrow> (int \<times> benchmark) list
     \<Rightarrow> sku_score list" where
  "score_new_products analysis_windows new_products sales_data benchmarks =
     (let merged_rows =
            merge_launch sales_data
              (map (\<lambda>p. (np_sku p, Some (np_launch_date p))) new_products);
          all_window_scores = concat (map (window_summary merged_rows) analysis_windows)
      in map (\<lambda>k.
           (let results = map (\<lambda>window.
                  score_window (get_benchmark benchmarks window)
                    (filter (\<lambda>r. w_sku r = k \<and> w_window r = window) all_window_scores)
                    window) analysis_windows
            in \<lparr> ss_sku = k,
                 ss_windows = results,
                 overall_score =
                   nan_plus
                     (map_option (\<lambda>x. x * (6 / 10)) (mean (map wr_revenue_score results)))
                     (map_option (\<lambda>x. x * (4 / 10)) (mean (map wr_units_score results))) \<rparr>))
         (unique (map np_sku new_products)))"

text \<open>
  The sales of a sku that fall into a window, counted from the launch date of the new
  product table: the group of the sku in the \<open>groupby('sku')\<close> of the window's rows.
\<close>

definition sku_window_sales ::
  "new_product list \<Rightarrow> sale_event list \<Rightarrow> string \<Rightarrow> int \<Rightarrow> sale_event list" where
  "sku_window_sales new_products sales_data k window =
     filter (\<lambda>s. e_sku s = k)
       (map fst (filter (in_window window)
          (merge_launch sales_data
             (map (\<lambda>p. (np_sku p, Some (np_launch_date p))) new_products))))"

subsection \<open>Example inputs\<close>

text \<open>
  Two rows of the velocity frame: a sku with stock and no sales, and a sku that sells one
  unit in ten days with 20 units on hand (200 days of supply).
\<close>

definition ex_velocity :: "velocity_row list" where
  "ex_velocity =
     [\<lparr> vr_sku = ''DEAD'', vr_units_per_day = 0, vr_quantity_on_hand = 10, vr_cost_per_unit = 2 \<rparr>,
      \<lparr> vr_sku = ''SLOW'', vr_units_per_day = 1 / 10, vr_quantity_on_hand = 20, vr_cost_per_unit = 3 \<rparr>]"

text \<open>
  Two customers who both bought the skus A and B (identical buyer sets, overlap 1.0), and
  sales tables for them.
\<close>

definition ex_purchases :: "purchase list" where
  "ex_purchases =
     [\<lparr> customer_id = ''c1'', p_sku = ''A'' \<rparr>, \<lparr> customer_id = ''c1'', p_sku = ''B'' \<rparr>,
      \<lparr> customer_id = ''c2'', p_sku = ''A'' \<rparr>, \<lparr> customer_id = ''c2'', p_sku = ''B'' \<rparr>]"

definition ex_sale :: "string \<Rightarrow> rat \<Rightarrow> sale" where
  "ex_sale k r =
     \<lparr> s_sku = k, s_revenue = r, s_units = 1, s_fees = 0, s_shipping_cost = 0, s_returns = 0 \<rparr>"

definition ex_sales_both :: "sale list" where
  "ex_sales_both = [ex_sale ''A'' 600, ex_sale ''B'' 400, ex_sale ''A'' 400]"

definition ex_sales_tie :: "sale list" where
  "ex_sales_tie = [ex_sale ''B'' 500, ex_sale ''A'' 500]"

definition ex_sales_only_A :: "sale list" where
  "ex_sales_only_A = [ex_sale ''A'' 1000]"

definition ex_overlap_AB :: overlap_row where
  "ex_overlap_AB =
     \<lparr> sku1 = ''A'', sku2 = ''B'', customers_sku1 = 2, customers_sku2 = 2,
       overlap_count = 2, overlap_pct = 1 \<rparr>"

text \<open>
  Two merged rows that differ in revenue only (1000 against 400), and three active skus
  with falling revenue, profit and units.
\<close>

definition ex_merged :: "merged_row list" where
  "ex_merged =
     [\<lparr> sku = ''A'', revenue = 1000, units = 10, fees = Some 30, shipping_cost = Some 50,
        quantity_on_hand = 5, cost_per_unit = 2 \<rparr>,
      \<lparr> sku = ''B'', revenue = 400, units = 10, fees = Some 30, shipping_cost = Some 50,
        quantity_on_hand = 5, cost_per_unit = 2 \<rparr>]"

definition ex_active :: "merged_row list" where
  "ex_active =
     [\<lparr> sku = ''A'', revenue = 1000, units = 10, fees = Some 30, shipping_cost = Some 50,
        quantity_on_hand = 5, cost_per_unit = 2 \<rparr>,
      \<lparr> sku = ''B'', revenue = 400, units = 8, fees = Some 30, shipping_cost = Some 50,
        quantity_on_hand = 5, cost_per_unit = 2 \<rparr>,
      \<lparr> sku = ''C'', revenue = 100, units = 2, fees = Some 30, shipping_cost = Some 50,
        quantity_on_hand = 5, cost_per_unit = 2 \<rparr>]"

text \<open>
  Sales of a sku A that is in the inventory (two records) and of a sku F that is not (one
  record without revenue or units), with the merged rows they give.
\<close>

definition ex_margin_sales :: "sale list" where
  "ex_margin_sales =
     [\<lparr> s_sku = ''A'', s_revenue = 100, s_units = 4, s_fees = 3, s_shipping_cost = 5,
        s_returns = 2 \<rparr>,
      \<lparr> s_sku = ''A'', s_revenue = 50, s_units = 1, s_fees = 2, s_shipping_cost = 5,
        s_returns = 0 \<rparr>,
      \<lparr> s_sku = ''F'', s_revenue = 0, s_units = 0, s_fees = 1, s_shipping_cost = 0,
        s_returns = 0 \<rparr>]"

definition ex_inventory :: "inventory list" where
  "ex_inventory = [\<lparr> i_sku = ''A'', i_quantity_on_hand = 7, i_cost_per_unit = 10 \<rparr>]"

definition ex_margin_A :: margin_merged where
  "ex_margin_A =
     \<lparr> cm_sku = ''A'', cm_revenue = 150, cm_units = 5, cm_fees = 5, cm_shipping_cost = 10,
       cm_returns = 2, cm_cost_per_unit = 10 \<rparr>"

definition ex_margin_F :: margin_merged where
  "ex_margin_F =
     \<lparr> cm_sku = ''F'', cm_revenue = 0, cm_units = 0, cm_fees = 1, cm_shipping_cost = 0,
       cm_returns = 0, cm_cost_per_unit = 0 \<rparr>"

text \<open>
  Inputs of the status overlay: Z is a zombie, a money loser and an underperformer, L a
  money loser and an underperformer, S a critical slow mover, H a slow mover of high
  urgency, U an underperformer, G in no list.
\<close>

definition ex_inputs :: status_inputs where
  "ex_inputs =
     \<lparr> in_zombies = [''Z''],
       in_losers = [''Z'', ''L''],
       in_slow_movers = [(''S'', Critical), (''H'', High)],
       in_underperformers = [''L'', ''U'', ''Z''] \<rparr>"

definition ex_skus :: "string list" where
  "ex_skus = [''Z'', ''L'', ''S'', ''H'', ''U'', ''G'']"

text \<open>
  A results dict with a scalar entry and three analyses; the last recommendation has a
  priority that \<open>priority_order\<close> does not know.
\<close>

definition ex_results :: "(string \<times> result_value) list" where
  "ex_results =
     [(''platform'', Scalar),
      (''sku_rationalization'', Analysis (Some
         [\<lparr> rec_type = ''discontinue'', priority = ''high'', subject = [] \<rparr>,
          \<lparr> rec_type = ''discontinue_sku'', priority = ''high'', subject = [''A''] \<rparr>])),
      (''slow_mover_detection'', Analysis (Some
         [\<lparr> rec_type = ''markdown_urgent'', priority = ''critical'', subject = [] \<rparr>,
          \<lparr> rec_type = ''sku_action'', priority = ''high'', subject = [''D''] \<rparr>])),
      (''new_product_scoring'', Analysis (Some
         [\<lparr> rec_type = ''success'', priority = ''low'', subject = [] \<rparr>,
          \<lparr> rec_type = ''new_product_action'', priority = ''medium'', subject = [''N''] \<rparr>,
          \<lparr> rec_type = ''odd'', priority = ''urgent'', subject = [] \<rparr>]))]"

text \<open>
  A product N launched on day 90 and four products launched on day 0; today is day 100.
  Three of the old products had a sale without revenue in their first 30 days, so the
  median revenue of the benchmark population is 0 while its 75th percentile is 50.
\<close>

definition ex_products :: "product list" where
  "ex_products =
     [\<lparr> pr_sku = ''N'', pr_launch_date = Some 90 \<rparr>,
      \<lparr> pr_sku = ''P1'', pr_launch_date = Some 0 \<rparr>,
      \<lparr> pr_sku = ''P2'', pr_launch_date = Some 0 \<rparr>,
      \<lparr> pr_sku = ''P3'', pr_launch_date = Some 0 \<rparr>,
      \<lparr> pr_sku = ''P4'', pr_launch_date = Some 0 \<rparr>]"

definition ex_events :: "sale_event list" where
  "ex_events =
     [\<lparr> e_sku = ''P1'', e_date = Some 5, e_revenue = 0, e_units = 1 \<rparr>,
      \<lparr> e_sku = ''P2'', e_date = Some 3, e_revenue = 0, e_units = 1 \<rparr>,
      \<lparr> e_sku = ''P3'', e_date = Some 10, e_revenue = 0, e_units = 1 \<rparr>,
      \<lparr> e_sku = ''P4'', e_date = Some 7, e_revenue = 200, e_units = 1 \<rparr>,
      \<lparr> e_sku = ''N'', e_date = Some 95, e_revenue = 50, e_units = 1 \<rparr>]"


definition ex_windows :: "int list" where
  "ex_windows = [30, 60, 90]"

definition ex_bench_30 :: benchmark where
  "ex_bench_30 = get_benchmark (calculate_benchmarks ex_windows ex_events ex_products) 30"

definition ex_score_N_30 :: window_result where
  "ex_score_N_30 =
     score_window ex_bench_30
       [\<lparr> w_sku = ''N'', w_revenue = 50, w_units = 1, w_window = 30 \<rparr>] 30"

definition ex_new_products :: "new_product list" where
  "ex_new_products = [\<lparr> np_sku = ''N'', np_launch_date = 90, np_days_since_launch = 10 \<rparr>]"

definition ex_scores :: "sku_score list" where
  "ex_scores =
     score_new_products ex_windows ex_new_products ex_events
       (calculate_benchmarks ex_windows ex_events ex_products)"

text \<open>
  A second population: P5 is one more old product, Q a new product with one large sale,
  Z a new product without sales.
\<close>

definition ex_products_Q :: "product list" where
  "ex_products_Q =
     ex_products @ [\<lparr> pr_sku = ''P5'', pr_launch_date = Some 0 \<rparr>,
                    \<lparr> pr_sku = ''Q'', pr_launch_date = Some 95 \<rparr>,
                    \<lparr> pr_sku = ''Z'', pr_launch_date = Some 96 \<rparr>]"

definition ex_events_Q :: "sale_event list" where
  "ex_events_Q =
     ex_events @ [\<lparr> e_sku = ''P5'', e_date = Some 8, e_revenue = 100, e_units = 1 \<rparr>,
                  \<lparr> e_sku = ''Q'', e_date = Some 97, e_revenue = 300, e_units = 5 \<rparr>]"

definition ex_new_products_Q :: "new_product list" where
  "ex_new_products_Q =
     [\<lparr> np_sku = ''N'', np_launch_date = 90, np_days_since_launch = 10 \<rparr>,
      \<lparr> np_sku = ''Q'', np_launch_date = 95, np_days_since_launch = 5 \<rparr>,
      \<lparr> np_sku = ''Z'', np_launch_date = 96, np_days_since_launch = 4 \<rparr>]"

definition ex_benchmarks_Q :: "(int \<times> benchmark) list" where
  "ex_benchmarks_Q = calculate_benchmarks ex_windows ex_events_Q ex_products_Q"

definition ex_scores_Q :: "sku_score list" where
  "ex_scores_Q = score_new_products ex_windows ex_new_products_Q ex_events_Q ex_benchmarks_Q"

definition ex_tagged :: "string \<Rightarrow> string \<Rightarrow> string \<Rightarrow> string list \<Rightarrow> consolidated" where
  "ex_tagged src t p s =
     \<lparr> c_rec = \<lparr> rec_type = t, priority = p, subject = s \<rparr>, source_analysis = src \<rparr>"

section \<open>Properties\<close>

subsection \<open>Sorting keeps the rows\<close>

lemma set_insert_by: "set (insert_by le x ys) = insert x (set ys)"
  by (induction ys) auto

lemma set_sort_values: "set (sort_values le xs) = set xs"
  by (induction xs) (simp_all add: sort_values_def set_insert_by)

lemma length_insert_by: "length (insert_by le x ys) = Suc (length ys)"
  by (induction ys) auto

lemma length_sort_values: "length (sort_values le xs) = length xs"
  by (induction xs) (simp_all add: sort_values_def length_insert_by)

lemma set_unique: "set (unique xs) = set xs"
  by (induction xs rule: unique.induct) auto

subsection \<open>Slow movers\<close>

lemma get_urgency_retained:
  "days_ge d t \<or> d = PInf \<Longrightarrow> get_urgency t d = Critical \<or> get_urgency t d = High"
  by (cases d) (auto simp: get_urgency_def)

lemma get_urgency_inf: "get_urgency t PInf = Critical"
  by (simp add: get_urgency_def)

text \<open>
  Claim C9. Every row retained by the slow-mover analyzer, that is every row of the frame
  of days of supply whose days of supply are at least the threshold or infinite, is in the
  result with urgency critical or high and never medium; a row with infinite days of
  supply has urgency critical; and a row with no positive sales velocity has infinite days
  of supply, so it is retained as critical.
\<close>

theorem slow_movers_urgency:
  "(\<forall>m \<in> set (identify_slow_movers t (calculate_days_of_supply velocity)).
       (sm_urgency m = Critical \<or> sm_urgency m = High) \<and> sm_urgency m \<noteq> Medium
       \<and> (sr_days_of_supply (sm_row m) = PInf \<longrightarrow> sm_urgency m = Critical)
       \<and> (days_ge (sr_days_of_supply (sm_row m)) t \<or> sr_days_of_supply (sm_row m) = PInf))
   \<and> (\<forall>v \<in> set velocity. \<not> vr_units_per_day v > 0 \<longrightarrow>
         \<lparr> sm_row = days_of_supply_row v, sm_urgency = Critical \<rparr>
           \<in> set (identify_slow_movers t (calculate_days_of_supply velocity)))"
proof (intro conjI ballI impI)
  fix m assume m: "m \<in> set (identify_slow_movers t (calculate_days_of_supply velocity))"
  then obtain r where r: "r \<in> set (calculate_days_of_supply velocity)"
      "days_ge (sr_days_of_supply r) t \<or> sr_days_of_supply r = PInf"
      "m = \<lparr> sm_row = r, sm_urgency = get_urgency t (sr_days_of_supply r) \<rparr>"
    by (auto simp: identify_slow_movers_def set_sort_values)
  from r(2) have u: "get_urgency t (sr_days_of_supply r) = Critical
      \<or> get_urgency t (sr_days_of_supply r) = High"
    by (rule get_urgency_retained)
  show "sm_urgency m = Critical \<or> sm_urgency m = High" using u r(3) by simp
  show "sm_urgency m \<noteq> Medium" using u r(3) by auto
  show "sm_urgency m = Critical" if "sr_days_of_supply (sm_row m) = PInf"
    using that r(3) by (simp add: get_urgency_inf)
  show "days_ge (sr_days_of_supply (sm_row m)) t \<or> sr_days_of_supply (sm_row m) = PInf"
    using r(2,3) by simp
next
  fix v assume v: "v \<in> set velocity" "\<not> vr_units_per_day v > 0"
  have d: "sr_days_of_supply (days_of_supply_row v) = PInf"
    using v(2) by (simp add: days_of_supply_row_def)
  have "days_of_supply_row v \<in> set (calculate_days_of_supply velocity)"
    using v(1) by (simp add: calculate_days_of_supply_def)
  then show "\<lparr> sm_row = days_of_supply_row v, sm_urgency = Critical \<rparr>
      \<in> set (identify_slow_movers t (calculate_days_of_supply velocity))"
    using d by (force simp: identify_slow_movers_def set_sort_values get_urgency_inf)
qed

theorem slow_movers_urgency_witness:
  "identify_slow_movers 180 (calculate_days_of_supply ex_velocity) =
     [\<lparr> sm_row = days_of_supply_row (ex_velocity ! 0), sm_urgency = Critical \<rparr>,
      \<lparr> sm_row = days_of_supply_row (ex_velocity ! 1), sm_urgency = High \<rparr>]
   \<and> sr_days_of_supply (days_of_supply_row (ex_velocity ! 1)) = Fin 200
   \<and> \<lparr> sm_row = days_of_supply_row (ex_velocity ! 0), sm_urgency = Critical \<rparr>
         \<in> set (identify_slow_movers 180 (calculate_days_of_supply ex_velocity))
   \<and> \<lparr> sm_row = days_of_supply_row (ex_velocity ! 1), sm_urgency = Medium \<rparr>
         \<notin> set (identify_slow_movers 180 (calculate_days_of_supply ex_velocity))"
proof -
  have e: "identify_slow_movers 180 (calculate_days_of_supply ex_velocity) =
     [\<lparr> sm_row = days_of_supply_row (ex_velocity ! 0), sm_urgency = Critical \<rparr>,
      \<lparr> sm_row = days_of_supply_row (ex_velocity ! 1), sm_urgency = High \<rparr>]"
    by (simp add: identify_slow_movers_def calculate_days_of_supply_def ex_velocity_def
        days_of_supply_row_def sort_values_def get_urgency_def)
  have d: "sr_days_of_supply (days_of_supply_row (ex_velocity ! 1)) = Fin 200"
    by (simp add: ex_velocity_def days_of_supply_row_def)
  have v: "ex_velocity ! 0 \<in> set ex_velocity" "\<not> vr_units_per_day (ex_velocity ! 0) > 0"
    by (simp_all add: ex_velocity_def)
  note t = slow_movers_urgency [of 180 ex_velocity]
  from t v have c: "\<lparr> sm_row = days_of_supply_row (ex_velocity ! 0), sm_urgency = Critical \<rparr>
         \<in> set (identify_slow_movers 180 (calculate_days_of_supply ex_velocity))"
    by blast
  have "\<lparr> sm_row = days_of_supply_row (ex_velocity ! 1), sm_urgency = Medium \<rparr>
         \<notin> set (identify_slow_movers 180 (calculate_days_of_supply ex_velocity))"
  proof
    assume "\<lparr> sm_row = days_of_supply_row (ex_velocity ! 1), sm_urgency = Medium \<rparr>
         \<in> set (identify_slow_movers 180 (calculate_days_of_supply ex_velocity))"
    with t have "sm_urgency \<lparr> sm_row = days_of_supply_row (ex_velocity ! 1), sm_urgency = Medium \<rparr>
        \<noteq> Medium"
      by blast
    then show False by simp
  qed
  with e d c show ?thesis by blast
qed

subsection \<open>Cannibalization\<close>

lemma identify_rows:
  assumes "identify_cannibalization thr om sales = Inr cp" and "r \<in> set (rows cp)"
  shows "\<exists>p \<in> set (rows om). overlap_pct p \<ge> thr \<and> r = merge_sales sales p"
  using assms
  by (auto simp: identify_cannibalization_def getitem_def empty_frame_def set_sort_values
      split: if_splits)

lemma merge_sales_total:
  "(stronger_sku (merge_sales sales p) = sku1 p \<and> weaker_sku (merge_sales sales p) = sku2 p)
   \<or> (stronger_sku (merge_sales sales p) = sku2 p \<and> weaker_sku (merge_sales sales p) = sku1 p)"
  by (simp add: merge_sales_def Let_def)

lemma overlap_matrix_example:
  "calculate_overlap_matrix ex_purchases = Frame overlap_columns [ex_overlap_AB]"
  by code_simp

text \<open>
  For a retained pair whose two skus both have sales, the stronger sku is the one with the
  higher revenue (the first one at a tie), the weaker is the other, and the revenue at risk
  is the smaller of the two revenues.
\<close>

lemma stronger_weaker_defined:
  assumes "identify_cannibalization thr om sales = Inr cp"
    and "r \<in> set (rows (fst (calculate_impact cp)))"
    and "revenue1 (cannibal r) = Some a" and "revenue2 (cannibal r) = Some b"
  shows "(if a \<ge> b
          then stronger_sku (cannibal r) = sku1 (pair (cannibal r))
             \<and> weaker_sku (cannibal r) = sku2 (pair (cannibal r))
          else stronger_sku (cannibal r) = sku2 (pair (cannibal r))
             \<and> weaker_sku (cannibal r) = sku1 (pair (cannibal r)))
       \<and> revenue_at_risk r = Some (min a b)"
proof -
  from assms(2) obtain c where c: "c \<in> set (rows cp)"
      "r = \<lparr> cannibal = c, revenue_at_risk = py_min (revenue1 c) (revenue2 c) \<rparr>"
    by (auto simp: calculate_impact_def Let_def split: if_splits)
  from identify_rows [OF assms(1) c(1)] obtain p where p: "c = merge_sales sales p"
    by blast
  have rv: "revenue1 c = Some a" "revenue2 c = Some b"
    using assms(3,4) c(2) by simp_all
  then have g: "group_sum s_revenue sales (sku1 p) = Some a"
      "group_sum s_revenue sales (sku2 p) = Some b"
    by (simp_all add: p merge_sales_def Let_def)
  have "revenue_at_risk r = Some (min a b)"
    using rv c(2) by (auto simp: py_min_def min_def)
  moreover have "pair c = p" by (simp add: p merge_sales_def Let_def)
  ultimately show ?thesis
    using g c(2) by (simp add: p merge_sales_def Let_def)
qed

text \<open>The scenario of the specification: revenues 1000 and 400, in either order of the skus.\<close>

lemma scenario_1000_400:
  "map_sum id reported_pairs (cannibalization_analyze (85 / 100) ex_purchases ex_sales_both)
     = Inr [(''A'', ''B'', Some 400)]
   \<and> map_sum id reported_pairs
       (cannibalization_analyze (85 / 100) (rev ex_purchases) ex_sales_both)
     = Inr [(''A'', ''B'', Some 400)]"
  by code_simp

text \<open>
  Claim C3, at a retained pair where only one sku has sales: sku A has total revenue 1000
  and sku B has no sales record. With the pair in the order (A, B) the analyzer reports B,
  the sku without sales, as the stronger one and A as the weaker, with 1000 at risk; with
  the pair in the order (B, A) it reports A as stronger and no number (NaN) at risk. The
  merged revenue of B is NaN, and both the comparison and \<open>min\<close> are false on NaN.
\<close>

theorem cannibalization_missing_sales:
  "total_revenue ex_sales_only_A ''A'' = 1000
   \<and> total_revenue ex_sales_only_A ''B'' = 0
   \<and> map_sum id reported_pairs
       (cannibalization_analyze (85 / 100) ex_purchases ex_sales_only_A)
     = Inr [(''B'', ''A'', Some 1000)]
   \<and> map_sum id reported_pairs
       (cannibalization_analyze (85 / 100) (rev ex_purchases) ex_sales_only_A)
     = Inr [(''A'', ''B'', None)]"
  by code_simp

text \<open>
  Claim C10. In every row of the frame of retained pairs the stronger and the weaker sku
  are the two skus of the pair, one each; and when both revenues are defined and equal,
  the stronger sku is the first sku of the pair and the weaker sku is the second.
\<close>

theorem tie_stronger_is_first:
  assumes "identify_cannibalization thr om sales = Inr cp" and "r \<in> set (rows cp)"
  shows "((stronger_sku r = sku1 (pair r) \<and> weaker_sku r = sku2 (pair r))
          \<or> (stronger_sku r = sku2 (pair r) \<and> weaker_sku r = sku1 (pair r)))
       \<and> (\<forall>a. revenue1 r = Some a \<and> revenue2 r = Some a \<longrightarrow>
             stronger_sku r = sku1 (pair r) \<and> weaker_sku r = sku2 (pair r))"
proof -
  from identify_rows [OF assms] obtain p where p: "r = merge_sales sales p"
    by blast
  show ?thesis
    unfolding p using merge_sales_total [of sales p]
    by (auto simp: merge_sales_def Let_def)
qed

theorem tie_stronger_is_first_witness:
  "identify_cannibalization (85 / 100) (calculate_overlap_matrix ex_purchases) ex_sales_tie
     = Inr (Frame (overlap_columns @ merged_columns) [merge_sales ex_sales_tie ex_overlap_AB])
   \<and> revenue1 (merge_sales ex_sales_tie ex_overlap_AB) = Some 500
   \<and> revenue2 (merge_sales ex_sales_tie ex_overlap_AB) = Some 500
   \<and> stronger_sku (merge_sales ex_sales_tie ex_overlap_AB) = ''A''
   \<and> weaker_sku (merge_sales ex_sales_tie ex_overlap_AB) = ''B''"
proof -
  have e: "identify_cannibalization (85 / 100) (calculate_overlap_matrix ex_purchases) ex_sales_tie
     = Inr (Frame (overlap_columns @ merged_columns) [merge_sales ex_sales_tie ex_overlap_AB])"
    by code_simp
  have m: "merge_sales ex_sales_tie ex_overlap_AB
      \<in> set (rows (Frame (overlap_columns @ merged_columns)
                 [merge_sales ex_sales_tie ex_overlap_AB]))"
    by simp
  have r: "revenue1 (merge_sales ex_sales_tie ex_overlap_AB) = Some 500"
      "revenue2 (merge_sales ex_sales_tie ex_overlap_AB) = Some 500"
    by code_simp+
  have s: "sku1 (pair (merge_sales ex_sales_tie ex_overlap_AB)) = ''A''"
      "sku2 (pair (merge_sales ex_sales_tie ex_overlap_AB)) = ''B''"
    by (simp_all add: merge_sales_def Let_def ex_overlap_AB_def)
  from tie_stronger_is_first [OF e m] r s e show ?thesis
    by simp
qed

subsection \<open>SKU rationalization: the composite score\<close>

lemma filter_split_le:
  assumes "\<And>x. P x \<Longrightarrow> \<not> Q x" and "\<And>x. P x \<Longrightarrow> R x" and "\<And>x. Q x \<Longrightarrow> R x"
  shows "length (filter P xs) + length (filter Q xs) \<le> length (filter R xs)"
  using assms by (induction xs) auto

lemma length_filter_mono:
  assumes "\<And>x. x \<in> set xs \<Longrightarrow> P x \<Longrightarrow> Q x"
  shows "length (filter P xs) \<le> length (filter Q xs)"
  using assms by (induction xs) auto

lemma filter_pos: "x \<in> set xs \<Longrightarrow> P x \<Longrightarrow> 0 < length (filter P xs)"
  by (induction xs) auto

lemma map_filter_id_mem: "Some v \<in> set xs \<Longrightarrow> v \<in> set (List.map_filter id xs)"
  by (auto simp: List.map_filter_def intro!: image_eqI [where x = "Some v"])

lemma rank_pct_desc_antitone:
  assumes "i < length xs" and "j < length xs"
    and "xs ! i = Some a" and "xs ! j = Some b" and "a > b"
  shows "\<exists>p q. rank_pct_desc xs ! i = Some p \<and> rank_pct_desc xs ! j = Some q \<and> p < q"
proof -
  define vs where "vs = List.map_filter id xs"
  define G where "G v = length (filter (\<lambda>w. w > v) vs)" for v
  define E where "E v = length (filter (\<lambda>w. w = v) vs)" for v
  have a: "a \<in> set vs" and b: "b \<in> set vs"
    using assms(1-4) unfolding vs_def
    by (metis map_filter_id_mem nth_mem)+
  have ea: "0 < E a" and eb: "0 < E b"
    unfolding E_def using filter_pos [OF a, of "\<lambda>w. w = a"] filter_pos [OF b, of "\<lambda>w. w = b"]
    by simp_all
  have n: "0 < length vs" using a by (cases vs) auto
  have "G a + E a \<le> G b"
    unfolding G_def E_def using assms(5) by (intro filter_split_le) auto
  then have "(of_nat (G a) :: rat) + of_nat (E a) \<le> of_nat (G b)"
    by (metis of_nat_add of_nat_le_iff)
  moreover have "(1::rat) \<le> of_nat (E a)" "(1::rat) \<le> of_nat (E b)"
    using ea eb by simp_all
  ultimately have "(of_nat (G a) :: rat) + (of_nat (E a) + 1) / 2
      < of_nat (G b) + (of_nat (E b) + 1) / 2"
    by (simp add: field_simps)
  then have "((of_nat (G a) :: rat) + (of_nat (E a) + 1) / 2) / of_nat (length vs)
      < (of_nat (G b) + (of_nat (E b) + 1) / 2) / of_nat (length vs)"
    using n by (simp add: divide_strict_right_mono)
  then show ?thesis
    using assms(1-4) by (simp add: rank_pct_desc_def Let_def vs_def G_def E_def)
qed

text \<open>
  Claim C1, at two skus that differ in revenue only: A with revenue 1000 and B with
  revenue 400. \<open>rank(pct=True, ascending=False)\<close> gives the larger revenue the smaller
  percentile, 1/2 for A against 1 for B; the composite score of A (11/20) is below that of
  B (19/20), and with the threshold percentile 20 the sku flagged as zombie is A, the one
  with the higher revenue. Lemma \<open>rank_pct_desc_antitone\<close> above is the general fact: a
  strictly larger value gets a strictly smaller percentile.
\<close>

theorem revenue_rank_reversed:
  "rank_pct_desc (map (\<lambda>r. Some (revenue r)) ex_merged) = [Some (1 / 2), Some 1]
   \<and> map composite_score (calculate_metrics ex_merged) = [Some (11 / 20), Some (19 / 20)]
   \<and> map_sum id (map (\<lambda>z. sku (merged (z_metrics z))))
       (identify_zombies 20 (calculate_metrics ex_merged)) = Inr [''A'']"
  by code_simp

subsection \<open>SKU rationalization: the zombie threshold\<close>

lemma interpolate_bounds:
  fixes s :: "rat list"
  assumes "sorted s" and "i < length s" and "0 \<le> f" and "f \<le> 1"
  shows "s ! i \<le> s ! i + f * (s ! min (i + 1) (length s - 1) - s ! i)"
    and "s ! i + f * (s ! min (i + 1) (length s - 1) - s ! i) \<le> s ! min (i + 1) (length s - 1)"
proof -
  have h: "i \<le> min (i + 1) (length s - 1)" "min (i + 1) (length s - 1) < length s"
    using assms(2) by auto
  have d: "0 \<le> s ! min (i + 1) (length s - 1) - s ! i"
    using sorted_nth_mono [OF assms(1) h] by simp
  show "s ! i \<le> s ! i + f * (s ! min (i + 1) (length s - 1) - s ! i)"
    using d assms(3) by simp
  have "f * (s ! min (i + 1) (length s - 1) - s ! i) \<le> 1 * (s ! min (i + 1) (length s - 1) - s ! i)"
    using d assms(4) by (intro mult_right_mono) auto
  then show "s ! i + f * (s ! min (i + 1) (length s - 1) - s ! i) \<le> s ! min (i + 1) (length s - 1)"
    by simp
qed

lemma interpolate_mono:
  assumes "sorted s" and "s \<noteq> []" and "0 \<le> x" and "x \<le> y"
    and "y \<le> of_nat (length s - 1)"
  shows "interpolate s x \<le> interpolate s y"
proof -
  define i where "i = nat \<lfloor>x\<rfloor>"
  define j where "j = nat \<lfloor>y\<rfloor>"
  define n where "n = length s"
  have y0: "0 \<le> y" using assms(3,4) by simp
  have ij: "i \<le> j" unfolding i_def j_def using assms(4) by (simp add: floor_mono nat_mono)
  have "\<lfloor>y\<rfloor> \<le> int (length s - 1)"
    using assms(5) by (metis floor_mono floor_of_nat)
  then have jn: "j \<le> length s - 1" unfolding j_def by simp
  have n0: "0 < length s" using assms(2) by simp
  have jl: "j < length s" using jn n0 by linarith
  have il: "i < length s" using ij jl by linarith
  have xi: "of_nat i = (of_int \<lfloor>x\<rfloor> :: rat)" unfolding i_def using assms(3) by simp
  have yj: "of_nat j = (of_int \<lfloor>y\<rfloor> :: rat)" unfolding j_def using y0 by simp
  have fx: "0 \<le> x - of_nat i" "x - of_nat i \<le> 1"
    unfolding xi by linarith+
  have fy: "0 \<le> y - of_nat j" "y - of_nat j \<le> 1"
    unfolding yj by linarith+
  have ex: "interpolate s x = s ! i + (x - of_nat i) * (s ! min (i + 1) (length s - 1) - s ! i)"
    by (simp add: interpolate_def Let_def i_def)
  have ey: "interpolate s y = s ! j + (y - of_nat j) * (s ! min (j + 1) (length s - 1) - s ! j)"
    by (simp add: interpolate_def Let_def j_def)
  show ?thesis
  proof (cases "i = j")
    case True
    have h: "i \<le> min (i + 1) (length s - 1)" "min (i + 1) (length s - 1) < length s"
      using il by auto
    have d: "0 \<le> s ! min (i + 1) (length s - 1) - s ! i"
      using sorted_nth_mono [OF assms(1) h] by simp
    have "(x - of_nat i) * (s ! min (i + 1) (length s - 1) - s ! i)
        \<le> (y - of_nat i) * (s ! min (i + 1) (length s - 1) - s ! i)"
      using d assms(4) by (intro mult_right_mono) auto
    then show ?thesis unfolding ex ey True [symmetric] by simp
  next
    case False
    then have lt: "i + 1 \<le> j" using ij by simp
    then have m: "min (i + 1) (length s - 1) = i + 1" using jn by simp
    have "interpolate s x \<le> s ! (i + 1)"
      using interpolate_bounds(2) [OF assms(1) il fx] unfolding ex m .
    also have "\<dots> \<le> s ! j"
      using sorted_nth_mono [OF assms(1) lt jl] .
    also have "\<dots> \<le> interpolate s y"
      using interpolate_bounds(1) [OF assms(1) jl fy] unfolding ey .
    finally show ?thesis .
  qed
qed

lemma percentile_linear_mono:
  assumes "a \<noteq> []" and "0 \<le> q1" and "q1 \<le> q2" and "q2 \<le> 100"
  shows "percentile_linear a q1 \<le> percentile_linear a q2"
proof -
  have s1: "sorted (sort a)" by simp
  have s3: "length (sort a) = length a" by simp
  have s2: "sort a \<noteq> []" using assms(1) s3 by (metis length_0_conv)
  note s = s1 s2 s3
  have n: "(0::rat) \<le> of_nat (length a - 1)" by simp
  have q: "(0::rat) \<le> of_int q1 / 100" "(of_int q1 :: rat) / 100 \<le> of_int q2 / 100"
      "(of_int q2 :: rat) / 100 \<le> 1"
    using assms(2-4) by simp_all
  have 1: "(0::rat) \<le> of_nat (length a - 1) * (of_int q1 / 100)"
    using n q(1) by simp
  have 2: "(of_nat (length a - 1) :: rat) * (of_int q1 / 100)
      \<le> of_nat (length a - 1) * (of_int q2 / 100)"
    by (rule mult_left_mono [OF q(2) n])
  have "(of_nat (length a - 1) :: rat) * (of_int q2 / 100) \<le> of_nat (length a - 1) * 1"
    by (rule mult_left_mono [OF q(3) n])
  then have 3: "(of_nat (length a - 1) :: rat) * (of_int q2 / 100)
      \<le> of_nat (length (sort a) - 1)"
    by (simp add: s(3))
  show ?thesis
    unfolding percentile_linear_def
    by (rule interpolate_mono [OF s(1) s(2) 1 2 3])
qed


lemma nan_le_mono: "nan_le x (Some t1) \<Longrightarrow> t1 \<le> t2 \<Longrightarrow> nan_le x (Some t2)"
  by (cases x) auto

lemma np_percentile_cases:
  assumes "a \<noteq> []" and "0 \<le> q1" and "q1 \<le> q2" and "q2 \<le> 100"
  shows "(np_percentile a q1 = Inr None \<and> np_percentile a q2 = Inr None)
       \<or> (\<exists>t1 t2. np_percentile a q1 = Inr (Some t1) \<and> np_percentile a q2 = Inr (Some t2)
             \<and> t1 \<le> t2)"
proof (cases "None \<in> set a")
  case True
  then show ?thesis using assms by (simp add: np_percentile_def)
next
  case False
  then have "List.map_filter id a \<noteq> []"
    using assms(1) by (cases a) (auto simp: List.map_filter_def)
  from percentile_linear_mono [OF this assms(2-4)] False assms show ?thesis
    by (simp add: np_percentile_def)
qed

text \<open>
  Claim C8. For fixed metrics (so a fixed active set with fixed composite scores) and
  threshold percentiles \<open>0 \<le> N1 \<le> N2 \<le> 100\<close>, the range in which \<open>np.percentile\<close> is
  defined, \<open>_identify_zombies\<close> returns for both, every zombie row under \<open>N1\<close> is a zombie
  row under \<open>N2\<close>, the same holds for the skus, and the count under \<open>N1\<close> is at most the
  count under \<open>N2\<close>.
\<close>

theorem zombies_monotone:
  assumes "0 \<le> N1" and "N1 \<le> N2" and "N2 \<le> 100"
  shows "\<exists>z1 z2. identify_zombies N1 ms = Inr z1 \<and> identify_zombies N2 ms = Inr z2
           \<and> set z1 \<subseteq> set z2
           \<and> set (zombie_sku_list z1) \<subseteq> set (zombie_sku_list z2)
           \<and> length z1 \<le> length z2"
proof -
  define act where
    "act = filter (\<lambda>m. revenue (merged m) > 0 \<or> quantity_on_hand (merged m) > 0) ms"
  define mk where
    "mk = (\<lambda>m :: metrics_row. \<lparr> z_metrics = m, z_status = ''zombie'', z_reason = get_zombie_reason m \<rparr>)"
  define srt where
    "srt = sort_values (\<lambda>(a :: metrics_row) b. nan_le (composite_score a) (composite_score b))"
  have unf: "identify_zombies N ms =
      (if length act = 0 then Inr []
       else case np_percentile (map composite_score act) N of
         Inl e \<Rightarrow> Inl e
       | Inr threshold \<Rightarrow>
           Inr (map mk (srt (filter (\<lambda>m. nan_le (composite_score m) threshold) act))))" for N
    unfolding identify_zombies_def Let_def act_def mk_def srt_def by simp
  show ?thesis
  proof (cases "length act = 0")
    case True
    then show ?thesis by (simp add: unf)
  next
    case False
    then have ne: "map composite_score act \<noteq> []" by simp
    from np_percentile_cases [OF ne assms] show ?thesis
    proof (elim disjE conjE exE)
      assume "np_percentile (map composite_score act) N1 = Inr None"
        and "np_percentile (map composite_score act) N2 = Inr None"
      then show ?thesis using False by (simp add: unf)
    next
      fix t1 t2
      assume t: "np_percentile (map composite_score act) N1 = Inr (Some t1)"
        "np_percentile (map composite_score act) N2 = Inr (Some t2)" "t1 \<le> t2"
      let ?f1 = "filter (\<lambda>m. nan_le (composite_score m) (Some t1)) act"
      let ?f2 = "filter (\<lambda>m. nan_le (composite_score m) (Some t2)) act"
      have e1: "identify_zombies N1 ms = Inr (map mk (srt ?f1))"
        and e2: "identify_zombies N2 ms = Inr (map mk (srt ?f2))"
        using False t(1,2) by (simp_all add: unf)
      have sub: "set ?f1 \<subseteq> set ?f2"
        using nan_le_mono [OF _ t(3)] by auto
      have len: "length ?f1 \<le> length ?f2"
        using nan_le_mono [OF _ t(3)] by (intro length_filter_mono) blast
      have s: "set (map mk (srt ?f1)) \<subseteq> set (map mk (srt ?f2))"
        using sub by (auto simp: srt_def set_sort_values)
      have k: "set (zombie_sku_list (map mk (srt ?f1))) \<subseteq> set (zombie_sku_list (map mk (srt ?f2)))"
        using sub by (auto simp: zombie_sku_list_def srt_def set_sort_values)
      have l: "length (map mk (srt ?f1)) \<le> length (map mk (srt ?f2))"
        using len by (simp add: srt_def length_sort_values)
      from e1 e2 s k l show ?thesis by blast
    qed
  qed
qed

theorem zombies_monotone_witness:
  "map_sum id zombie_sku_list (identify_zombies 20 (calculate_metrics ex_active)) = Inr [''A'']
   \<and> map_sum id zombie_sku_list (identify_zombies 60 (calculate_metrics ex_active))
       = Inr [''A'', ''B'']
   \<and> (0::int) \<le> 20 \<and> (20::int) \<le> 60 \<and> (60::int) \<le> 100
   \<and> (\<exists>z1 z2. identify_zombies 20 (calculate_metrics ex_active) = Inr z1
         \<and> identify_zombies 60 (calculate_metrics ex_active) = Inr z2
         \<and> set z1 \<subseteq> set z2 \<and> length z1 \<le> length z2)"
proof -
  have a: "map_sum id zombie_sku_list (identify_zombies 20 (calculate_metrics ex_active))
      = Inr [''A'']"
    by code_simp
  have b: "map_sum id zombie_sku_list (identify_zombies 60 (calculate_metrics ex_active))
      = Inr [''A'', ''B'']"
    by code_simp
  have h: "(0::int) \<le> 20" "(20::int) \<le> 60" "(60::int) \<le> 100"
    by simp_all
  from zombies_monotone [OF h, of "calculate_metrics ex_active"]
  have "\<exists>z1 z2. identify_zombies 20 (calculate_metrics ex_active) = Inr z1
         \<and> identify_zombies 60 (calculate_metrics ex_active) = Inr z2
         \<and> set z1 \<subseteq> set z2 \<and> length z1 \<le> length z2"
    by blast
  with a b h show ?thesis by blast
qed

subsection \<open>Empty inputs\<close>

text \<open>
  Claim C2, at empty input tables. With no purchase rows the overlap matrix and the frame
  of pairs are \<open>pd.DataFrame()\<close>, without columns, and the summary of the cannibalization
  analyzer reads the column \<open>overlap_pct\<close> of that frame: \<open>analyze\<close> raises \<open>KeyError\<close>,
  whatever the sales are. The SKU rationalization analyzer returns its defaults on empty
  tables: no zombies, no metrics, zero impact, no recommendations.
\<close>

theorem empty_inputs:
  "cannibalization_analyze thr [] sales = Inl (KeyError ''overlap_pct'')
   \<and> sku_analyze N [] [] ps =
       Inr \<lparr> zombie_skus = [], metrics = [],
             sk_financial_impact =
               \<lparr> working_capital_freed = 0, annual_revenue_lost = 0,
                 annual_profit_lost = 0, net_benefit = 0 \<rparr>,
             sk_recommendations = [],
             sk_summary = \<lparr> total_zombies = 0, capital_freed = 0, bottom_percentile = N \<rparr> \<rparr>"
proof
  show "cannibalization_analyze thr [] sales = Inl (KeyError ''overlap_pct'')"
    by (simp add: cannibalization_analyze_def calculate_overlap_matrix_def
        identify_cannibalization_def df_empty_def empty_frame_def calculate_impact_def
        getitem_def)
  have m: "merge_data [] [] ps = []"
    by (simp add: merge_data_def)
  have c: "calculate_metrics [] = []"
    by (simp add: calculate_metrics_def)
  have z: "identify_zombies N [] = Inr []"
    by (simp add: identify_zombies_def)
  show "sku_analyze N [] [] ps =
       Inr \<lparr> zombie_skus = [], metrics = [],
             sk_financial_impact =
               \<lparr> working_capital_freed = 0, annual_revenue_lost = 0,
                 annual_profit_lost = 0, net_benefit = 0 \<rparr>,
             sk_recommendations = [],
             sk_summary = \<lparr> total_zombies = 0, capital_freed = 0, bottom_percentile = N \<rparr> \<rparr>"
    by (simp add: sku_analyze_def m c z calculate_financial_impact_def sku_recommendations_def)
qed

subsection \<open>Contribution margin\<close>

lemma margin_merge_rows:
  assumes "r \<in> set (margin_merge_data sales invt ps)"
  shows "cm_sku r \<in> set (map s_sku sales)
       \<and> cm_revenue r = sku_total s_revenue sales (cm_sku r)
       \<and> cm_units r = sku_total s_units sales (cm_sku r)
       \<and> cm_fees r = sku_total s_fees sales (cm_sku r)
       \<and> cm_shipping_cost r = sku_total s_shipping_cost sales (cm_sku r)
       \<and> cm_returns r = sku_total s_returns sales (cm_sku r)
       \<and> (cm_cost_per_unit r \<in> i_cost_per_unit ` {i \<in> set invt. i_sku i = cm_sku r}
          \<or> cm_cost_per_unit r = 0 \<and> cm_sku r \<notin> i_sku ` set invt)"
  using assms
  by (auto simp: margin_merge_data_def Let_def set_unique filter_empty_conv split: if_splits)

text \<open>
  Claim C4. For every row of the margin table (one sku of the sales data with one cost per
  unit), the cost of goods sold is units times cost per unit, the return cost is half the
  returns, the contribution margin is revenue minus the sum of fees, shipping cost, cost
  of goods sold and return cost, the margin percentage is margin over revenue when the
  revenue is positive and 0 otherwise, the profit per unit is margin over units when the
  units are positive and 0 otherwise; revenue, units, fees, shipping cost and returns are
  the sums over the sku's sales records.
\<close>

theorem margin_formula:
  assumes "m \<in> set (calculate_contribution_margins (margin_merge_data sales invt ps))"
  shows "cogs m = cm_units (base m) * cm_cost_per_unit (base m)
       \<and> return_cost m = cm_returns (base m) * (1 / 2)
       \<and> contribution_margin m =
           cm_revenue (base m)
             - (cm_fees (base m) + cm_shipping_cost (base m) + cogs m + return_cost m)
       \<and> contribution_margin_pct m =
           (if cm_revenue (base m) > 0 then contribution_margin m / cm_revenue (base m) else 0)
       \<and> profit_per_unit m =
           (if cm_units (base m) > 0 then contribution_margin m / cm_units (base m) else 0)
       \<and> cm_revenue (base m) = sku_total s_revenue sales (cm_sku (base m))
       \<and> cm_units (base m) = sku_total s_units sales (cm_sku (base m))
       \<and> cm_fees (base m) = sku_total s_fees sales (cm_sku (base m))
       \<and> cm_shipping_cost (base m) = sku_total s_shipping_cost sales (cm_sku (base m))
       \<and> cm_returns (base m) = sku_total s_returns sales (cm_sku (base m))"
proof -
  from assms obtain r where r: "r \<in> set (margin_merge_data sales invt ps)" "m = margin_of r"
    by (auto simp: calculate_contribution_margins_def)
  have b: "base m = r" by (simp add: r(2) margin_of_def Let_def)
  show ?thesis
    using margin_merge_rows [OF r(1)] unfolding b
    by (simp add: r(2) margin_of_def Let_def)
qed

theorem margin_formula_witness:
  "calculate_contribution_margins (margin_merge_data ex_margin_sales ex_inventory [])
     = [margin_of ex_margin_A, margin_of ex_margin_F]
   \<and> cogs (margin_of ex_margin_A) = 50
   \<and> return_cost (margin_of ex_margin_A) = 1
   \<and> contribution_margin (margin_of ex_margin_A) = 84
   \<and> contribution_margin_pct (margin_of ex_margin_A) = 84 / 150
   \<and> profit_per_unit (margin_of ex_margin_A) = 84 / 5
   \<and> contribution_margin (margin_of ex_margin_F) = - 1
   \<and> contribution_margin_pct (margin_of ex_margin_F) = 0
   \<and> profit_per_unit (margin_of ex_margin_F) = 0"
proof -
  have e: "calculate_contribution_margins (margin_merge_data ex_margin_sales ex_inventory [])
     = [margin_of ex_margin_A, margin_of ex_margin_F]"
    by code_simp
  have mA: "margin_of ex_margin_A
      \<in> set (calculate_contribution_margins (margin_merge_data ex_margin_sales ex_inventory []))"
    and mF: "margin_of ex_margin_F
      \<in> set (calculate_contribution_margins (margin_merge_data ex_margin_sales ex_inventory []))"
    unfolding e by simp_all
  have bA: "base (margin_of ex_margin_A) = ex_margin_A"
    and bF: "base (margin_of ex_margin_F) = ex_margin_F"
    by (simp_all add: margin_of_def Let_def)
  note tA = margin_formula [OF mA, unfolded bA]
  note tF = margin_formula [OF mF, unfolded bF]
  from tA have a1: "cogs (margin_of ex_margin_A) = 50"
    by (simp add: ex_margin_A_def)
  from tA have a2: "return_cost (margin_of ex_margin_A) = 1"
    by (simp add: ex_margin_A_def)
  from tA a1 a2 have a3: "contribution_margin (margin_of ex_margin_A) = 84"
    by (simp add: ex_margin_A_def)
  from tA a3 have a4: "contribution_margin_pct (margin_of ex_margin_A) = 84 / 150"
    by (simp add: ex_margin_A_def)
  from tA a3 have a5: "profit_per_unit (margin_of ex_margin_A) = 84 / 5"
    by (simp add: ex_margin_A_def)
  from tF have f1: "contribution_margin (margin_of ex_margin_F) = - 1"
    by (simp add: ex_margin_F_def)
  from tF have f2: "contribution_margin_pct (margin_of ex_margin_F) = 0"
    by (simp add: ex_margin_F_def)
  from tF have f3: "profit_per_unit (margin_of ex_margin_F) = 0"
    by (simp add: ex_margin_F_def)
  from e a1 a2 a3 a4 a5 f1 f2 f3 show ?thesis by blast
qed

subsection \<open>Traffic light status\<close>

lemma escalate_idem: "escalate c (escalate c s) = escalate c s"
  by (simp add: escalate_def)

lemma fold_escalate:
  assumes "\<And>m k x. status_of (step m k) x
     = (if x = k then map_option (escalate c) (status_of m x) else status_of m x)"
  shows "status_of (fold (\<lambda>k m. step m k) ks m) x
     = (if x \<in> set ks then map_option (escalate c) (status_of m x) else status_of m x)"
proof (induction ks arbitrary: m)
  case Nil
  then show ?case by simp
next
  case (Cons k ks)
  show ?case
    by (simp add: Cons.IH assms option.map_comp comp_def escalate_idem)
qed

lemma mark_zombie_status:
  "status_of (mark_zombie m k) x
     = (if x = k then map_option (escalate Red) (status_of m x) else status_of m x)"
proof (cases "m k")
  case None
  then show ?thesis by (auto simp: mark_zombie_def status_of_def)
next
  case (Some e)
  then show ?thesis
    by (cases "status e") (auto simp: mark_zombie_def status_of_def escalate_def)
qed

lemma mark_critical_status:
  "status_of (mark_critical m k) x
     = (if x = k then map_option (escalate Red) (status_of m x) else status_of m x)"
proof (cases "m k")
  case None
  then show ?thesis by (auto simp: mark_critical_def status_of_def)
next
  case (Some e)
  then show ?thesis
    by (cases "status e") (auto simp: mark_critical_def status_of_def escalate_def)
qed

lemma mark_loser_status:
  "status_of (mark_loser m k) x
     = (if x = k then map_option (escalate Yellow) (status_of m x) else status_of m x)"
proof (cases "m k")
  case None
  then show ?thesis by (auto simp: mark_loser_def status_of_def)
next
  case (Some e)
  then show ?thesis
    by (cases "status e") (auto simp: mark_loser_def status_of_def escalate_def)
qed

lemma mark_underperformer_status:
  "status_of (mark_underperformer m k) x
     = (if x = k then map_option (escalate Yellow) (status_of m x) else status_of m x)"
proof (cases "m k")
  case None
  then show ?thesis by (auto simp: mark_underperformer_def status_of_def)
next
  case (Some e)
  then show ?thesis
    by (cases "status e") (auto simp: mark_underperformer_def status_of_def escalate_def)
qed

lemma apply_rule_status:
  "status_of (apply_rule inp r m) x
     = (if x \<in> members inp r then map_option (escalate (level r)) (status_of m x)
        else status_of m x)"
proof (cases r)
  case Zombie_rule
  then show ?thesis using fold_escalate [of mark_zombie Red, OF mark_zombie_status] by simp
next
  case Loser_rule
  then show ?thesis using fold_escalate [of mark_loser Yellow, OF mark_loser_status] by simp
next
  case Slow_rule
  then show ?thesis using fold_escalate [of mark_critical Red, OF mark_critical_status] by simp
next
  case New_rule
  then show ?thesis
    using fold_escalate [of mark_underperformer Yellow, OF mark_underperformer_status] by simp
qed


lemma apply_rules_status:
  "status_of (apply_rules inp order m) x
     = map_option
         (\<lambda>s. fold (\<lambda>r s. if x \<in> members inp r then escalate (level r) s else s) order s)
         (status_of m x)"
proof (induction order arbitrary: m)
  case Nil
  then show ?case by (simp add: apply_rules_def option.map_ident)
next
  case (Cons r rs)
  have "status_of (apply_rules inp (r # rs) m) x
      = status_of (apply_rules inp rs (apply_rule inp r m)) x"
    by (simp add: apply_rules_def)
  then show ?case
    by (simp add: Cons.IH apply_rule_status option.map_comp comp_def)
qed

lemma fold_levels:
  "fold (\<lambda>r s. if x \<in> members inp r then escalate (level r) s else s) order s
     = final_status (level ` {r \<in> set order. x \<in> members inp r}) s"
proof (induction order arbitrary: s)
  case Nil
  then show ?case by (simp add: final_status_def)
next
  case (Cons r rs)
  define L where "L = level ` {q \<in> set rs. x \<in> members inp q}"
  have split: "level ` {q \<in> set (r # rs). x \<in> members inp q}
      = (if x \<in> members inp r then insert (level r) L else L)"
    unfolding L_def by auto
  have step: "final_status L (if x \<in> members inp r then escalate (level r) s else s)
      = final_status (if x \<in> members inp r then insert (level r) L else L) s"
    by (cases "level r"; cases s) (auto simp: final_status_def escalate_def)
  have "fold (\<lambda>r s. if x \<in> members inp r then escalate (level r) s else s) (r # rs) s
      = final_status L (if x \<in> members inp r then escalate (level r) s else s)"
    unfolding L_def by (simp add: Cons.IH)
  then show ?case unfolding split step .
qed

lemma init_status_of:
  "status_of (init_status all_skus) x = (if x \<in> set all_skus then Some Green else None)"
proof -
  have "status_of (fold (\<lambda>k m. m(k \<mapsto> \<lparr> se_sku = k, status = Green, issues = [] \<rparr>)) ks m0) x
      = (if x \<in> set ks then Some Green else status_of m0 x)" for ks m0
    by (induction ks arbitrary: m0) (auto simp: status_of_def)
  then show ?thesis by (simp add: init_status_def status_of_def)
qed

lemma generate_as_rules:
  "generate_traffic_light_status all_skus inp
     = apply_rules inp [Zombie_rule, Loser_rule, Slow_rule, New_rule] (init_status all_skus)"
  by (simp add: generate_traffic_light_status_def apply_rules_def)

lemma rules_status:
  assumes "x \<in> set all_skus" and "set order = {Zombie_rule, Loser_rule, Slow_rule, New_rule}"
  shows "status_of (apply_rules inp order (init_status all_skus)) x
     = Some (if x \<in> set (in_zombies inp) \<or> x \<in> set (critical_skus inp) then Red
             else if x \<in> set (in_losers inp) \<or> x \<in> set (in_underperformers inp) then Yellow
             else Green)"
proof -
  let ?L = "level ` {r \<in> set order. x \<in> members inp r}"
  have red: "Red \<in> ?L \<longleftrightarrow> x \<in> set (in_zombies inp) \<or> x \<in> set (critical_skus inp)"
  proof
    assume "Red \<in> ?L"
    then obtain r where "x \<in> members inp r" "level r = Red" by auto
    then show "x \<in> set (in_zombies inp) \<or> x \<in> set (critical_skus inp)"
      by (cases r) auto
  next
    assume "x \<in> set (in_zombies inp) \<or> x \<in> set (critical_skus inp)"
    then have "(Zombie_rule \<in> set order \<and> x \<in> members inp Zombie_rule)
        \<or> (Slow_rule \<in> set order \<and> x \<in> members inp Slow_rule)"
      using assms(2) by auto
    then show "Red \<in> ?L" by force
  qed
  have yellow: "Yellow \<in> ?L \<longleftrightarrow> x \<in> set (in_losers inp) \<or> x \<in> set (in_underperformers inp)"
  proof
    assume "Yellow \<in> ?L"
    then obtain r where "x \<in> members inp r" "level r = Yellow" by auto
    then show "x \<in> set (in_losers inp) \<or> x \<in> set (in_underperformers inp)"
      by (cases r) auto
  next
    assume "x \<in> set (in_losers inp) \<or> x \<in> set (in_underperformers inp)"
    then have "(Loser_rule \<in> set order \<and> x \<in> members inp Loser_rule)
        \<or> (New_rule \<in> set order \<and> x \<in> members inp New_rule)"
      using assms(2) by auto
    then show "Yellow \<in> ?L" by force
  qed
  have "status_of (apply_rules inp order (init_status all_skus)) x = Some (final_status ?L Green)"
    using assms(1) by (simp add: apply_rules_status fold_levels init_status_of)
  then show ?thesis
    using red yellow by (simp add: final_status_def escalate_def)
qed

text \<open>
  Claim C6. For a sku \<open>x\<close> with an entry in the status map: the final status is red when
  \<open>x\<close> is a zombie or a critical slow mover, otherwise yellow when it is a money loser or
  an underperforming new product, otherwise green; and applying the four blocks in any
  order (any sequence in which each occurs) gives the same final status. For every status
  map, a block never lowers the severity of \<open>x\<close>; the zombie and the critical-slow-mover
  blocks set a listed sku to red; the money-loser block and the underperformer block
  raise a listed sku from green to yellow and leave yellow and red as they are.
\<close>

theorem status_escalation:
  "(x \<in> set all_skus \<longrightarrow>
      status_of (generate_traffic_light_status all_skus inp) x
        = Some (if x \<in> set (in_zombies inp) \<or> x \<in> set (critical_skus inp) then Red
                else if x \<in> set (in_losers inp) \<or> x \<in> set (in_underperformers inp)
                then Yellow else Green)
      \<and> (\<forall>order. set order = {Zombie_rule, Loser_rule, Slow_rule, New_rule} \<longrightarrow>
            status_of (apply_rules inp order (init_status all_skus)) x
              = status_of (generate_traffic_light_status all_skus inp) x))
   \<and> (\<forall>r m s. status_of m x = Some s \<longrightarrow>
         (\<exists>s'. status_of (apply_rule inp r m) x = Some s' \<and> severity s \<le> severity s'))
   \<and> (\<forall>m s. status_of m x = Some s \<longrightarrow>
         (x \<in> set (in_zombies inp) \<longrightarrow> status_of (apply_rule inp Zombie_rule m) x = Some Red)
       \<and> (x \<in> set (critical_skus inp) \<longrightarrow> status_of (apply_rule inp Slow_rule m) x = Some Red)
       \<and> (x \<in> set (in_losers inp) \<longrightarrow>
            status_of (apply_rule inp Loser_rule m) x = Some (if s = Green then Yellow else s))
       \<and> (x \<in> set (in_underperformers inp) \<longrightarrow>
            status_of (apply_rule inp New_rule m) x = Some (if s = Green then Yellow else s)))"
proof (intro conjI impI allI)
  assume x: "x \<in> set all_skus"
  have src: "set [Zombie_rule, Loser_rule, Slow_rule, New_rule]
      = {Zombie_rule, Loser_rule, Slow_rule, New_rule}"
    by simp
  show g: "status_of (generate_traffic_light_status all_skus inp) x
        = Some (if x \<in> set (in_zombies inp) \<or> x \<in> set (critical_skus inp) then Red
                else if x \<in> set (in_losers inp) \<or> x \<in> set (in_underperformers inp)
                then Yellow else Green)"
    unfolding generate_as_rules by (rule rules_status [OF x src])
  show "status_of (apply_rules inp order (init_status all_skus)) x
      = status_of (generate_traffic_light_status all_skus inp) x"
    if "set order = {Zombie_rule, Loser_rule, Slow_rule, New_rule}" for order
    unfolding g by (rule rules_status [OF x that])
next
  fix r m s assume "status_of m x = Some s"
  then show "\<exists>s'. status_of (apply_rule inp r m) x = Some s' \<and> severity s \<le> severity s'"
    using apply_rule_status [of inp r m x] by (simp add: escalate_def del: apply_rule.simps)
next
  fix m s assume s: "status_of m x = Some s"
  show "status_of (apply_rule inp Zombie_rule m) x = Some Red" if "x \<in> set (in_zombies inp)"
    using s that apply_rule_status [of inp Zombie_rule m x]
    by (cases s) (simp_all add: escalate_def del: apply_rule.simps)
  show "status_of (apply_rule inp Slow_rule m) x = Some Red" if "x \<in> set (critical_skus inp)"
    using s that apply_rule_status [of inp Slow_rule m x]
    by (cases s) (simp_all add: escalate_def del: apply_rule.simps)
  show "status_of (apply_rule inp Loser_rule m) x = Some (if s = Green then Yellow else s)"
    if "x \<in> set (in_losers inp)"
    using s that apply_rule_status [of inp Loser_rule m x]
    by (cases s) (simp_all add: escalate_def del: apply_rule.simps)
  show "status_of (apply_rule inp New_rule m) x = Some (if s = Green then Yellow else s)"
    if "x \<in> set (in_underperformers inp)"
    using s that apply_rule_status [of inp New_rule m x]
    by (cases s) (simp_all add: escalate_def del: apply_rule.simps)
qed

theorem status_escalation_witness:
  "map (status_of (generate_traffic_light_status ex_skus ex_inputs)) ex_skus
     = [Some Red, Some Yellow, Some Red, Some Green, Some Yellow, Some Green]
   \<and> status_of (generate_traffic_light_status ex_skus ex_inputs) ''Z'' = Some Red
   \<and> status_of (apply_rules ex_inputs [New_rule, Slow_rule, Loser_rule, Zombie_rule]
         (init_status ex_skus)) ''Z'' = Some Red
   \<and> status_of (generate_traffic_light_status ex_skus ex_inputs) ''L'' = Some Yellow
   \<and> status_of (apply_rules ex_inputs [New_rule, Slow_rule, Loser_rule, Zombie_rule]
         (init_status ex_skus)) ''L'' = Some Yellow
   \<and> status_of (apply_rule ex_inputs Loser_rule
         (generate_traffic_light_status ex_skus ex_inputs)) ''Z'' = Some Red"
proof -
  have e: "map (status_of (generate_traffic_light_status ex_skus ex_inputs)) ex_skus
     = [Some Red, Some Yellow, Some Red, Some Green, Some Yellow, Some Green]"
    by code_simp
  have o: "set [New_rule, Slow_rule, Loser_rule, Zombie_rule]
      = {Zombie_rule, Loser_rule, Slow_rule, New_rule}"
    by auto
  have mz: "''Z'' \<in> set ex_skus" and ml: "''L'' \<in> set ex_skus"
    by (simp_all add: ex_skus_def)
  have lz: "''Z'' \<in> set (in_losers ex_inputs)"
    by (simp add: ex_inputs_def)
  note tz = status_escalation [of "''Z''" ex_skus ex_inputs]
  note tl = status_escalation [of "''L''" ex_skus ex_inputs]
  from tz mz have z1: "status_of (generate_traffic_light_status ex_skus ex_inputs) ''Z'' = Some Red"
    by (simp add: ex_inputs_def critical_skus_def)
  from tz mz o have z2: "status_of (apply_rules ex_inputs [New_rule, Slow_rule, Loser_rule, Zombie_rule]
         (init_status ex_skus)) ''Z''
      = status_of (generate_traffic_light_status ex_skus ex_inputs) ''Z''"
    by blast
  from tl ml have l1: "status_of (generate_traffic_light_status ex_skus ex_inputs) ''L'' = Some Yellow"
    by (simp add: ex_inputs_def critical_skus_def)
  from tl ml o have l2: "status_of (apply_rules ex_inputs [New_rule, Slow_rule, Loser_rule, Zombie_rule]
         (init_status ex_skus)) ''L''
      = status_of (generate_traffic_light_status ex_skus ex_inputs) ''L''"
    by blast
  from tz z1 lz have z3: "status_of (apply_rule ex_inputs Loser_rule
         (generate_traffic_light_status ex_skus ex_inputs)) ''Z''
      = Some (if Red = Green then Yellow else Red)"
    by blast
  from e z1 z2 l1 l2 z3 show ?thesis by simp
qed

subsection \<open>Consolidated recommendations\<close>

lemma priority_key_table:
  "priority_key x =
     (if priority (c_rec x) = ''critical'' then 0
      else if priority (c_rec x) = ''high'' then 1
      else if priority (c_rec x) = ''medium'' then 2
      else 3)"
  by (simp add: priority_key_def priority_order_def)

lemma insort_key_between:
  assumes "\<forall>a \<in> set as. f a < f x" and "\<forall>b \<in> set bs. f x \<le> f b"
  shows "insort_key f x (as @ bs) = as @ x # bs"
  using assms
proof (induction as)
  case Nil
  then show ?case by (cases bs) auto
next
  case (Cons a as)
  then show ?case by (auto simp: not_le)
qed

lemma sort_key_buckets:
  fixes f :: "'a \<Rightarrow> nat"
  assumes "\<And>x. f x \<le> 3"
  shows "sort_key f xs =
     filter (\<lambda>x. f x = 0) xs @ filter (\<lambda>x. f x = 1) xs
       @ filter (\<lambda>x. f x = 2) xs @ filter (\<lambda>x. f x = 3) xs"
proof (induction xs)
  case Nil
  then show ?case by simp
next
  case (Cons x xs)
  let ?F = "\<lambda>k. filter (\<lambda>y. f y = k) xs"
  have s: "sort_key f (x # xs) = insort_key f x (?F 0 @ ?F 1 @ ?F 2 @ ?F 3)"
    using Cons.IH by simp
  consider "f x = 0" | "f x = 1" | "f x = 2" | "f x = 3"
    using assms [of x] by linarith
  then show ?case
  proof cases
    case 1
    have "insort_key f x ([] @ (?F 0 @ ?F 1 @ ?F 2 @ ?F 3)) = [] @ x # (?F 0 @ ?F 1 @ ?F 2 @ ?F 3)"
      by (rule insort_key_between) (auto simp: 1)
    then show ?thesis using s 1 by simp
  next
    case 2
    have "insort_key f x (?F 0 @ (?F 1 @ ?F 2 @ ?F 3)) = ?F 0 @ x # (?F 1 @ ?F 2 @ ?F 3)"
      by (rule insort_key_between) (auto simp: 2)
    then show ?thesis using s 2 by simp
  next
    case 3
    have "insort_key f x ((?F 0 @ ?F 1) @ (?F 2 @ ?F 3)) = (?F 0 @ ?F 1) @ x # (?F 2 @ ?F 3)"
      by (rule insort_key_between) (auto simp: 3)
    then show ?thesis using s 3 by simp
  next
    case 4
    have "insort_key f x ((?F 0 @ ?F 1 @ ?F 2) @ ?F 3) = (?F 0 @ ?F 1 @ ?F 2) @ x # ?F 3"
      by (rule insort_key_between) (auto simp: 4)
    then show ?thesis using s 4 by simp
  qed
qed

lemma priority_key_le: "priority_key x \<le> 3"
  by (simp add: priority_key_table)

text \<open>
  Claim C7. \<open>_consolidate_recommendations\<close> collects, in the order of the results dict,
  the recommendations of every entry that is a dict with a non-empty list under
  \<open>recommendations\<close>, each tagged with the name of its analysis and in the order of its
  list (other entries contribute nothing), and sorts them by the priority rank critical 0,
  high 1, medium 2, low and anything else 3. The consolidated list is therefore the
  collected list's critical items, then its high items, then its medium items, then the
  rest, each group in the order in which it was collected: the ranks ascend, for every
  rank the items of that rank keep their emission order, and nothing is lost or added.
\<close>

theorem consolidation_stable:
  "collect_recommendations [] = []
   \<and> collect_recommendations ((name, Scalar) # rest) = collect_recommendations rest
   \<and> collect_recommendations ((name, Analysis None) # rest) = collect_recommendations rest
   \<and> collect_recommendations ((name, Analysis (Some recs)) # rest)
       = map (\<lambda>r. \<lparr> c_rec = r, source_analysis = name \<rparr>) recs @ collect_recommendations rest
   \<and> consolidate_recommendations results
       = filter (\<lambda>x. priority (c_rec x) = ''critical'') (collect_recommendations results)
         @ filter (\<lambda>x. priority (c_rec x) = ''high'') (collect_recommendations results)
         @ filter (\<lambda>x. priority (c_rec x) = ''medium'') (collect_recommendations results)
         @ filter (\<lambda>x. priority (c_rec x) \<noteq> ''critical'' \<and> priority (c_rec x) \<noteq> ''high''
                        \<and> priority (c_rec x) \<noteq> ''medium'') (collect_recommendations results)
   \<and> priority_key x =
       (if priority (c_rec x) = ''critical'' then 0
        else if priority (c_rec x) = ''high'' then 1
        else if priority (c_rec x) = ''medium'' then 2
        else 3)
   \<and> sorted (map priority_key (consolidate_recommendations results))
   \<and> (\<forall>k. filter (\<lambda>x. priority_key x = k) (consolidate_recommendations results)
           = filter (\<lambda>x. priority_key x = k) (collect_recommendations results))
   \<and> length (consolidate_recommendations results) = length (collect_recommendations results)"
proof -
  have b: "consolidate_recommendations results
       = filter (\<lambda>x. priority_key x = 0) (collect_recommendations results)
         @ filter (\<lambda>x. priority_key x = 1) (collect_recommendations results)
         @ filter (\<lambda>x. priority_key x = 2) (collect_recommendations results)
         @ filter (\<lambda>x. priority_key x = 3) (collect_recommendations results)"
    unfolding consolidate_recommendations_def
    by (rule sort_key_buckets) (rule priority_key_le)
  have k0: "(\<lambda>x. priority_key x = 0) = (\<lambda>x. priority (c_rec x) = ''critical'')"
    and k1: "(\<lambda>x. priority_key x = 1) = (\<lambda>x. priority (c_rec x) = ''high'')"
    and k2: "(\<lambda>x. priority_key x = 2) = (\<lambda>x. priority (c_rec x) = ''medium'')"
    and k3: "(\<lambda>x. priority_key x = 3)
        = (\<lambda>x. priority (c_rec x) \<noteq> ''critical'' \<and> priority (c_rec x) \<noteq> ''high''
               \<and> priority (c_rec x) \<noteq> ''medium'')"
    by (auto simp: priority_key_table fun_eq_iff)
  have c: "consolidate_recommendations results
       = filter (\<lambda>x. priority (c_rec x) = ''critical'') (collect_recommendations results)
         @ filter (\<lambda>x. priority (c_rec x) = ''high'') (collect_recommendations results)
         @ filter (\<lambda>x. priority (c_rec x) = ''medium'') (collect_recommendations results)
         @ filter (\<lambda>x. priority (c_rec x) \<noteq> ''critical'' \<and> priority (c_rec x) \<noteq> ''high''
                        \<and> priority (c_rec x) \<noteq> ''medium'') (collect_recommendations results)"
    using b unfolding k0 k1 k2 k3 .
  have d: "collect_recommendations [] = []"
    "collect_recommendations ((name, Scalar) # rest) = collect_recommendations rest"
    "collect_recommendations ((name, Analysis None) # rest) = collect_recommendations rest"
    "collect_recommendations ((name, Analysis (Some recs)) # rest)
       = map (\<lambda>r. \<lparr> c_rec = r, source_analysis = name \<rparr>) recs @ collect_recommendations rest"
    by (simp_all add: collect_recommendations_def tag_recommendations_def)
  have e: "sorted (map priority_key (consolidate_recommendations results))"
    "\<forall>k. filter (\<lambda>x. priority_key x = k) (consolidate_recommendations results)
           = filter (\<lambda>x. priority_key x = k) (collect_recommendations results)"
    "length (consolidate_recommendations results) = length (collect_recommendations results)"
    by (simp_all add: consolidate_recommendations_def sort_key_stable)
  from c d e priority_key_table [of x] show ?thesis by blast
qed

theorem consolidation_stable_witness:
  "collect_recommendations ex_results
     = [ex_tagged ''sku_rationalization'' ''discontinue'' ''high'' [],
        ex_tagged ''sku_rationalization'' ''discontinue_sku'' ''high'' [''A''],
        ex_tagged ''slow_mover_detection'' ''markdown_urgent'' ''critical'' [],
        ex_tagged ''slow_mover_detection'' ''sku_action'' ''high'' [''D''],
        ex_tagged ''new_product_scoring'' ''success'' ''low'' [],
        ex_tagged ''new_product_scoring'' ''new_product_action'' ''medium'' [''N''],
        ex_tagged ''new_product_scoring'' ''odd'' ''urgent'' []]
   \<and> consolidate_recommendations ex_results
     = [ex_tagged ''slow_mover_detection'' ''markdown_urgent'' ''critical'' [],
        ex_tagged ''sku_rationalization'' ''discontinue'' ''high'' [],
        ex_tagged ''sku_rationalization'' ''discontinue_sku'' ''high'' [''A''],
        ex_tagged ''slow_mover_detection'' ''sku_action'' ''high'' [''D''],
        ex_tagged ''new_product_scoring'' ''new_product_action'' ''medium'' [''N''],
        ex_tagged ''new_product_scoring'' ''success'' ''low'' [],
        ex_tagged ''new_product_scoring'' ''odd'' ''urgent'' []]"
proof -
  note t = consolidation_stable [of "''x''" "[]" "[]" ex_results]
  have c: "collect_recommendations ex_results
     = [ex_tagged ''sku_rationalization'' ''discontinue'' ''high'' [],
        ex_tagged ''sku_rationalization'' ''discontinue_sku'' ''high'' [''A''],
        ex_tagged ''slow_mover_detection'' ''markdown_urgent'' ''critical'' [],
        ex_tagged ''slow_mover_detection'' ''sku_action'' ''high'' [''D''],
        ex_tagged ''new_product_scoring'' ''success'' ''low'' [],
        ex_tagged ''new_product_scoring'' ''new_product_action'' ''medium'' [''N''],
        ex_tagged ''new_product_scoring'' ''odd'' ''urgent'' []]"
    by code_simp
  from t have "consolidate_recommendations ex_results
       = filter (\<lambda>x. priority (c_rec x) = ''critical'') (collect_recommendations ex_results)
         @ filter (\<lambda>x. priority (c_rec x) = ''high'') (collect_recommendations ex_results)
         @ filter (\<lambda>x. priority (c_rec x) = ''medium'') (collect_recommendations ex_results)
         @ filter (\<lambda>x. priority (c_rec x) \<noteq> ''critical'' \<and> priority (c_rec x) \<noteq> ''high''
                        \<and> priority (c_rec x) \<noteq> ''medium'') (collect_recommendations ex_results)"
    by blast
  then have "consolidate_recommendations ex_results
     = [ex_tagged ''slow_mover_detection'' ''markdown_urgent'' ''critical'' [],
        ex_tagged ''sku_rationalization'' ''discontinue'' ''high'' [],
        ex_tagged ''sku_rationalization'' ''discontinue_sku'' ''high'' [''A''],
        ex_tagged ''slow_mover_detection'' ''sku_action'' ''high'' [''D''],
        ex_tagged ''new_product_scoring'' ''new_product_action'' ''medium'' [''N''],
        ex_tagged ''new_product_scoring'' ''success'' ''low'' [],
        ex_tagged ''new_product_scoring'' ''odd'' ''urgent'' []]"
    unfolding c by (simp add: ex_tagged_def)
  with c show ?thesis by blast
qed

subsection \<open>New product scoring\<close>

lemma benchmark_score_cases:
  "benchmark_score actual p50 p75 =
     (if nan_lt (Some 0) p50 \<and> nan_lt (Some 0) p75
      then min (actual / the p75) 1 else 0)"
  by (cases p75) (auto simp: benchmark_score_def min_def)

lemma benchmark_score_le_1: "benchmark_score actual p50 p75 \<le> 1"
  by (cases p75) (auto simp: benchmark_score_def)

lemma quantile_mono:
  assumes "a \<noteq> []" and "0 \<le> q1" and "q1 \<le> q2" and "q2 \<le> 1"
  shows "\<exists>x y. quantile a q1 = Some x \<and> quantile a q2 = Some y \<and> x \<le> y"
proof -
  have s1: "sorted (sort a)" by simp
  have s3: "length (sort a) = length a" by simp
  have s2: "sort a \<noteq> []" using assms(1) s3 by (metis length_0_conv)
  have n: "(0::rat) \<le> of_nat (length a - 1)" by simp
  have 1: "(0::rat) \<le> of_nat (length a - 1) * q1"
    using n assms(2) by simp
  have 2: "(of_nat (length a - 1) :: rat) * q1 \<le> of_nat (length a - 1) * q2"
    by (rule mult_left_mono [OF assms(3) n])
  have "(of_nat (length a - 1) :: rat) * q2 \<le> of_nat (length a - 1) * 1"
    by (rule mult_left_mono [OF assms(4) n])
  then have 3: "(of_nat (length a - 1) :: rat) * q2 \<le> of_nat (length (sort a) - 1)"
    by (simp add: s3)
  from interpolate_mono [OF s1 s2 1 2 3] assms(1) show ?thesis
    by (simp add: quantile_def)
qed

lemma filter_unique_eq: "filter (\<lambda>x. x = k) (unique xs) = (if k \<in> set xs then [k] else [])"
  by (induction xs rule: unique.induct) auto

lemma filter_key_empty: "filter (\<lambda>s. f s = k) xs = [] \<longleftrightarrow> k \<notin> set (map f xs)"
  by (induction xs) auto

lemma window_summary_filter:
  "filter (\<lambda>r. w_sku r = k \<and> w_window r = w) (window_summary M w') =
     (if w' = w \<and> k \<in> set (map e_sku (map fst (filter (in_window w) M)))
      then [\<lparr> w_sku = k,
              w_revenue = sum_list (map e_revenue
                (filter (\<lambda>s. e_sku s = k) (map fst (filter (in_window w) M)))),
              w_units = sum_list (map e_units
                (filter (\<lambda>s. e_sku s = k) (map fst (filter (in_window w) M)))),
              w_window = w \<rparr>]
      else [])"
proof (cases "w' = w")
  case True
  have "filter (\<lambda>r. w_sku r = k \<and> w_window r = w) (window_summary M w)
      = map (\<lambda>k. \<lparr> w_sku = k,
              w_revenue = sum_list (map e_revenue
                (filter (\<lambda>s. e_sku s = k) (map fst (filter (in_window w) M)))),
              w_units = sum_list (map e_units
                (filter (\<lambda>s. e_sku s = k) (map fst (filter (in_window w) M)))),
              w_window = w \<rparr>)
          (filter (\<lambda>x. x = k) (unique (map e_sku (map fst (filter (in_window w) M)))))"
    by (simp add: window_summary_def Let_def filter_map comp_def)
  then show ?thesis unfolding True filter_unique_eq by simp
next
  case False
  then show ?thesis by (simp add: window_summary_def Let_def filter_map comp_def)
qed

lemma window_data_replicate:
  "\<exists>n. filter (\<lambda>r. w_sku r = k \<and> w_window r = w) (concat (map (window_summary M) ws))
        = replicate n
            \<lparr> w_sku = k,
              w_revenue = sum_list (map e_revenue
                (filter (\<lambda>s. e_sku s = k) (map fst (filter (in_window w) M)))),
              w_units = sum_list (map e_units
                (filter (\<lambda>s. e_sku s = k) (map fst (filter (in_window w) M)))),
              w_window = w \<rparr>
      \<and> (n = 0 \<longleftrightarrow> \<not> (w \<in> set ws \<and> k \<in> set (map e_sku (map fst (filter (in_window w) M)))))"
proof (induction ws)
  case Nil
  then show ?case by simp
next
  case (Cons w' ws)
  then obtain n where n:
    "filter (\<lambda>r. w_sku r = k \<and> w_window r = w) (concat (map (window_summary M) ws))
        = replicate n
            \<lparr> w_sku = k,
              w_revenue = sum_list (map e_revenue
                (filter (\<lambda>s. e_sku s = k) (map fst (filter (in_window w) M)))),
              w_units = sum_list (map e_units
                (filter (\<lambda>s. e_sku s = k) (map fst (filter (in_window w) M)))),
              w_window = w \<rparr>"
    "n = 0 \<longleftrightarrow> \<not> (w \<in> set ws \<and> k \<in> set (map e_sku (map fst (filter (in_window w) M))))"
    by blast
  show ?case
  proof (cases "w' = w \<and> k \<in> set (map e_sku (map fst (filter (in_window w) M)))")
    case True
    show ?thesis
      by (rule exI [of _ "Suc n"]) (use True n in \<open>simp add: window_summary_filter\<close>)
  next
    case False
    show ?thesis
      by (rule exI [of _ n]) (use False n in \<open>auto simp: window_summary_filter\<close>)
  qed
qed

lemma score_of_window:
  assumes "w \<in> set ws"
  shows "score_window b
           (filter (\<lambda>r. w_sku r = k \<and> w_window r = w) (concat (map (window_summary M) ws))) w
     = (if filter (\<lambda>s. e_sku s = k) (map fst (filter (in_window w) M)) = []
        then \<lparr> wr_window = w, wr_revenue = 0, wr_units = 0,
               wr_revenue_score = 0, wr_units_score = 0 \<rparr>
        else \<lparr> wr_window = w,
               wr_revenue = sum_list (map e_revenue
                 (filter (\<lambda>s. e_sku s = k) (map fst (filter (in_window w) M)))),
               wr_units = sum_list (map e_units
                 (filter (\<lambda>s. e_sku s = k) (map fst (filter (in_window w) M)))),
               wr_revenue_score =
                 benchmark_score
                   (sum_list (map e_revenue
                      (filter (\<lambda>s. e_sku s = k) (map fst (filter (in_window w) M)))))
                   (revenue_p50 b) (revenue_p75 b),
               wr_units_score =
                 benchmark_score
                   (sum_list (map e_units
                      (filter (\<lambda>s. e_sku s = k) (map fst (filter (in_window w) M)))))
                   (units_p50 b) (units_p75 b) \<rparr>)"
proof -
  from window_data_replicate [of k w M ws] obtain n where n:
    "filter (\<lambda>r. w_sku r = k \<and> w_window r = w) (concat (map (window_summary M) ws))
        = replicate n
            \<lparr> w_sku = k,
              w_revenue = sum_list (map e_revenue
                (filter (\<lambda>s. e_sku s = k) (map fst (filter (in_window w) M)))),
              w_units = sum_list (map e_units
                (filter (\<lambda>s. e_sku s = k) (map fst (filter (in_window w) M)))),
              w_window = w \<rparr>"
    "n = 0 \<longleftrightarrow> \<not> (w \<in> set ws \<and> k \<in> set (map e_sku (map fst (filter (in_window w) M))))"
    by blast
  have m: "filter (\<lambda>s. e_sku s = k) (map fst (filter (in_window w) M)) = []
      \<longleftrightarrow> k \<notin> set (map e_sku (map fst (filter (in_window w) M)))"
    by (rule filter_key_empty)
  show ?thesis
  proof (cases n)
    case 0
    with n assms m show ?thesis by (simp add: score_window_def)
  next
    case (Suc j)
    with n assms m show ?thesis by (simp add: score_window_def)
  qed
qed


lemma wr_window_score_window: "wr_window (score_window b wd w) = w"
  by (cases wd) (simp_all add: score_window_def)

lemma get_calculated_benchmark:
  assumes "w \<in> set ws"
  shows "get_benchmark (calculate_benchmarks ws sales products) w =
     \<lparr> revenue_p50 = quantile (map w_revenue (window_summary
          (merge_launch sales (map (\<lambda>p. (pr_sku p, pr_launch_date p)) products)) w)) (1 / 2),
       revenue_p75 = quantile (map w_revenue (window_summary
          (merge_launch sales (map (\<lambda>p. (pr_sku p, pr_launch_date p)) products)) w)) (3 / 4),
       revenue_p90 = quantile (map w_revenue (window_summary
          (merge_launch sales (map (\<lambda>p. (pr_sku p, pr_launch_date p)) products)) w)) (9 / 10),
       units_p50 = quantile (map w_units (window_summary
          (merge_launch sales (map (\<lambda>p. (pr_sku p, pr_launch_date p)) products)) w)) (1 / 2),
       units_p75 = quantile (map w_units (window_summary
          (merge_launch sales (map (\<lambda>p. (pr_sku p, pr_launch_date p)) products)) w)) (3 / 4),
       units_p90 = quantile (map w_units (window_summary
          (merge_launch sales (map (\<lambda>p. (pr_sku p, pr_launch_date p)) products)) w)) (9 / 10) \<rparr>"
  using assms
  by (simp add: get_benchmark_def calculate_benchmarks_def Let_def map_of_map_restrict)

text \<open>
  Claim C5, at a window whose p75 revenue benchmark is positive and whose p50 revenue
  benchmark is 0: the benchmark population of the 30-day window has the revenues 0, 0, 0,
  50 and 200, so p50 is 0 and p75 is 50; the new product N has revenue 50 in the window,
  and its revenue score is 0, not min(50 / 50, 1) = 1, because the code asks for
  \<open>revenue_p50 > 0\<close> before it divides by \<open>revenue_p75\<close>.
\<close>

theorem p75_positive_score_zero:
  "map_sum id (\<lambda>np. map (\<lambda>s. (ss_sku s, ss_windows s))
       (score_new_products ex_windows np ex_events
          (calculate_benchmarks ex_windows ex_events ex_products)))
     (identify_new_products ex_windows ex_products 100)
     = Inr [(''N'', [ex_score_N_30,
                     ex_score_N_30\<lparr> wr_window := 60 \<rparr>,
                     ex_score_N_30\<lparr> wr_window := 90 \<rparr>])]
   \<and> revenue_p75 ex_bench_30 = Some 50
   \<and> revenue_p50 ex_bench_30 = Some 0
   \<and> wr_revenue ex_score_N_30 = 50
   \<and> wr_revenue_score ex_score_N_30 = 0
   \<and> wr_revenue_score ex_score_N_30 \<noteq> min (wr_revenue ex_score_N_30 / 50) 1"
  by code_simp

text \<open>
  Claim C5 as amended. \<open>_score_new_products\<close> returns one entry for each new product, in
  the order of first appearance, with one result for each analysis window, in the order of
  the windows. For the sku of the entry and the window of the result, with the benchmarks
  that the benchmark dict holds for that window: when the sku has no sale in the window
  (0 to window days after its launch), both scores are 0; otherwise the actual revenue and
  units are the sums over the sku's sales in the window, the revenue score is
  min(actual revenue / p75, 1) when both the p50 and the p75 revenue benchmarks are
  positive, and 0 when one of them is zero, negative or undefined, and the same holds for
  the units score with the units benchmarks; both scores are at most 1. The benchmarks
  that \<open>_calculate_benchmarks\<close> stores for a window are the quantiles 0.5 and 0.75 of the
  revenues and of the units of the products with a sale in that window. (For such
  benchmarks p50 is at most p75 by lemma \<open>quantile_mono\<close>, so a positive p50 is enough.)
\<close>

theorem new_product_scores:
  "map ss_sku (score_new_products ws nps sales bm) = unique (map np_sku nps)
   \<and> (\<forall>s \<in> set (score_new_products ws nps sales bm).
        map wr_window (ss_windows s) = ws
        \<and> (\<forall>r \<in> set (ss_windows s).
             (sku_window_sales nps sales (ss_sku s) (wr_window r) = [] \<longrightarrow>
                wr_revenue_score r = 0 \<and> wr_units_score r = 0)
           \<and> (sku_window_sales nps sales (ss_sku s) (wr_window r) \<noteq> [] \<longrightarrow>
                wr_revenue r
                  = sum_list (map e_revenue (sku_window_sales nps sales (ss_sku s) (wr_window r)))
              \<and> wr_units r
                  = sum_list (map e_units (sku_window_sales nps sales (ss_sku s) (wr_window r)))
              \<and> (\<forall>a b. revenue_p50 (get_benchmark bm (wr_window r)) = Some a \<and> 0 < a
                      \<and> revenue_p75 (get_benchmark bm (wr_window r)) = Some b \<and> 0 < b \<longrightarrow>
                    wr_revenue_score r = min (wr_revenue r / b) 1)
              \<and> (\<not> nan_lt (Some 0) (revenue_p50 (get_benchmark bm (wr_window r)))
                    \<or> \<not> nan_lt (Some 0) (revenue_p75 (get_benchmark bm (wr_window r))) \<longrightarrow>
                    wr_revenue_score r = 0)
              \<and> (\<forall>a b. units_p50 (get_benchmark bm (wr_window r)) = Some a \<and> 0 < a
                      \<and> units_p75 (get_benchmark bm (wr_window r)) = Some b \<and> 0 < b \<longrightarrow>
                    wr_units_score r = min (wr_units r / b) 1)
              \<and> (\<not> nan_lt (Some 0) (units_p50 (get_benchmark bm (wr_window r)))
                    \<or> \<not> nan_lt (Some 0) (units_p75 (get_benchmark bm (wr_window r))) \<longrightarrow>
                    wr_units_score r = 0))
           \<and> wr_revenue_score r \<le> 1 \<and> wr_units_score r \<le> 1))
   \<and> (\<forall>w \<in> set ws.
        revenue_p50 (get_benchmark (calculate_benchmarks ws sales products) w)
          = quantile (map w_revenue (window_summary
              (merge_launch sales (map (\<lambda>p. (pr_sku p, pr_launch_date p)) products)) w)) (1 / 2)
      \<and> revenue_p75 (get_benchmark (calculate_benchmarks ws sales products) w)
          = quantile (map w_revenue (window_summary
              (merge_launch sales (map (\<lambda>p. (pr_sku p, pr_launch_date p)) products)) w)) (3 / 4)
      \<and> units_p50 (get_benchmark (calculate_benchmarks ws sales products) w)
          = quantile (map w_units (window_summary
              (merge_launch sales (map (\<lambda>p. (pr_sku p, pr_launch_date p)) products)) w)) (1 / 2)
      \<and> units_p75 (get_benchmark (calculate_benchmarks ws sales products) w)
          = quantile (map w_units (window_summary
              (merge_launch sales (map (\<lambda>p. (pr_sku p, pr_launch_date p)) products)) w)) (3 / 4))"
proof (intro conjI ballI)
  define M where
    "M = merge_launch sales (map (\<lambda>p. (np_sku p, Some (np_launch_date p))) nps)"
  define res where
    "res = (\<lambda>k w. score_window (get_benchmark bm w)
       (filter (\<lambda>r. w_sku r = k \<and> w_window r = w) (concat (map (window_summary M) ws))) w)"
  have out: "score_new_products ws nps sales bm =
      map (\<lambda>k. \<lparr> ss_sku = k, ss_windows = map (res k) ws,
                  overall_score =
                    nan_plus
                      (map_option (\<lambda>x. x * (6 / 10)) (mean (map wr_revenue_score (map (res k) ws))))
                      (map_option (\<lambda>x. x * (4 / 10)) (mean (map wr_units_score (map (res k) ws)))) \<rparr>)
        (unique (map np_sku nps))"
    unfolding score_new_products_def Let_def M_def res_def by simp
  show "map ss_sku (score_new_products ws nps sales bm) = unique (map np_sku nps)"
    unfolding out by (simp add: comp_def)
  fix s assume "s \<in> set (score_new_products ws nps sales bm)"
  then obtain k where k: "ss_sku s = k" "ss_windows s = map (res k) ws"
    unfolding out by auto
  show "map wr_window (ss_windows s) = ws"
    unfolding k by (simp add: res_def wr_window_score_window comp_def)
  fix r assume "r \<in> set (ss_windows s)"
  then obtain w where w: "w \<in> set ws" "r = res k w"
    unfolding k by auto
  have ww: "wr_window r = w"
    by (simp add: w(2) res_def wr_window_score_window)
  have act: "sku_window_sales nps sales k w
      = filter (\<lambda>s. e_sku s = k) (map fst (filter (in_window w) M))"
    by (simp add: sku_window_sales_def M_def)
  have rr: "r = score_window (get_benchmark bm w)
      (filter (\<lambda>r. w_sku r = k \<and> w_window r = w) (concat (map (window_summary M) ws))) w"
    by (simp add: w(2) res_def)
  note sc = score_of_window [OF w(1), of "get_benchmark bm w" k M, folded rr act]
  show "sku_window_sales nps sales (ss_sku s) (wr_window r) = [] \<longrightarrow>
         wr_revenue_score r = 0 \<and> wr_units_score r = 0"
    unfolding k ww using sc by simp
  show "sku_window_sales nps sales (ss_sku s) (wr_window r) \<noteq> [] \<longrightarrow>
          wr_revenue r
            = sum_list (map e_revenue (sku_window_sales nps sales (ss_sku s) (wr_window r)))
        \<and> wr_units r
            = sum_list (map e_units (sku_window_sales nps sales (ss_sku s) (wr_window r)))
        \<and> (\<forall>a b. revenue_p50 (get_benchmark bm (wr_window r)) = Some a \<and> 0 < a
                \<and> revenue_p75 (get_benchmark bm (wr_window r)) = Some b \<and> 0 < b \<longrightarrow>
              wr_revenue_score r = min (wr_revenue r / b) 1)
        \<and> (\<not> nan_lt (Some 0) (revenue_p50 (get_benchmark bm (wr_window r)))
              \<or> \<not> nan_lt (Some 0) (revenue_p75 (get_benchmark bm (wr_window r))) \<longrightarrow>
              wr_revenue_score r = 0)
        \<and> (\<forall>a b. units_p50 (get_benchmark bm (wr_window r)) = Some a \<and> 0 < a
                \<and> units_p75 (get_benchmark bm (wr_window r)) = Some b \<and> 0 < b \<longrightarrow>
              wr_units_score r = min (wr_units r / b) 1)
        \<and> (\<not> nan_lt (Some 0) (units_p50 (get_benchmark bm (wr_window r)))
              \<or> \<not> nan_lt (Some 0) (units_p75 (get_benchmark bm (wr_window r))) \<longrightarrow>
              wr_units_score r = 0)"
    unfolding k ww using sc by (auto simp: benchmark_score_cases)
  show "wr_revenue_score r \<le> 1"
    using sc by (simp add: benchmark_score_le_1 split: if_splits)
  show "wr_units_score r \<le> 1"
    using sc by (simp add: benchmark_score_le_1 split: if_splits)
next
  fix w assume w: "w \<in> set ws"
  note g = get_calculated_benchmark [OF w, of sales products]
  show "revenue_p50 (get_benchmark (calculate_benchmarks ws sales products) w)
          = quantile (map w_revenue (window_summary
              (merge_launch sales (map (\<lambda>p. (pr_sku p, pr_launch_date p)) products)) w)) (1 / 2)"
    unfolding g by simp
  show "revenue_p75 (get_benchmark (calculate_benchmarks ws sales products) w)
          = quantile (map w_revenue (window_summary
              (merge_launch sales (map (\<lambda>p. (pr_sku p, pr_launch_date p)) products)) w)) (3 / 4)"
    unfolding g by simp
  show "units_p50 (get_benchmark (calculate_benchmarks ws sales products) w)
          = quantile (map w_units (window_summary
              (merge_launch sales (map (\<lambda>p. (pr_sku p, pr_launch_date p)) products)) w)) (1 / 2)"
    unfolding g by simp
  show "units_p75 (get_benchmark (calculate_benchmarks ws sales products) w)
          = quantile (map w_units (window_summary
              (merge_launch sales (map (\<lambda>p. (pr_sku p, pr_launch_date p)) products)) w)) (3 / 4)"
    unfolding g by simp
qed

theorem new_product_scores_witness:
  "identify_new_products ex_windows ex_products_Q 100 = Inr ex_new_products_Q
   \<and> map ss_sku ex_scores_Q = [''N'', ''Q'', ''Z'']
   \<and> map wr_window (ss_windows (ex_scores_Q ! 0)) = [30, 60, 90]
   \<and> revenue_p50 (get_benchmark ex_benchmarks_Q 30) = Some 50
   \<and> revenue_p75 (get_benchmark ex_benchmarks_Q 30) = Some 150
   \<and> units_p50 (get_benchmark ex_benchmarks_Q 30) = Some 1
   \<and> units_p75 (get_benchmark ex_benchmarks_Q 30) = Some 1
   \<and> wr_revenue (ss_windows (ex_scores_Q ! 0) ! 0) = 50
   \<and> wr_revenue_score (ss_windows (ex_scores_Q ! 0) ! 0) = 1 / 3
   \<and> wr_units (ss_windows (ex_scores_Q ! 0) ! 0) = 1
   \<and> wr_units_score (ss_windows (ex_scores_Q ! 0) ! 0) = 1
   \<and> wr_revenue (ss_windows (ex_scores_Q ! 1) ! 0) = 300
   \<and> wr_revenue_score (ss_windows (ex_scores_Q ! 1) ! 0) = 1
   \<and> wr_units (ss_windows (ex_scores_Q ! 1) ! 0) = 5
   \<and> wr_units_score (ss_windows (ex_scores_Q ! 1) ! 0) = 1
   \<and> sku_window_sales ex_new_products_Q ex_events_Q ''Z'' 30 = []
   \<and> wr_revenue_score (ss_windows (ex_scores_Q ! 2) ! 0) = 0
   \<and> wr_units_score (ss_windows (ex_scores_Q ! 2) ! 0) = 0
   \<and> revenue_p50 ex_bench_30 = Some 0
   \<and> revenue_p75 ex_bench_30 = Some 50
   \<and> wr_revenue (ss_windows (ex_scores ! 0) ! 0) = 50
   \<and> wr_revenue_score (ss_windows (ex_scores ! 0) ! 0) = 0"
proof -
  note tQ = new_product_scores [of ex_windows ex_new_products_Q ex_events_Q ex_benchmarks_Q
      ex_products_Q, folded ex_scores_Q_def ex_benchmarks_Q_def]
  note tN = new_product_scores [of ex_windows ex_new_products ex_events
      "calculate_benchmarks ex_windows ex_events ex_products" ex_products,
      folded ex_scores_def]
  have i: "identify_new_products ex_windows ex_products_Q 100 = Inr ex_new_products_Q"
    by code_simp
  have w30: "(30::int) \<in> set ex_windows"
    by (simp add: ex_windows_def)
  have q: "quantile (map w_revenue (window_summary (merge_launch ex_events_Q
              (map (\<lambda>p. (pr_sku p, pr_launch_date p)) ex_products_Q)) 30)) (1 / 2) = Some 50"
      "quantile (map w_revenue (window_summary (merge_launch ex_events_Q
              (map (\<lambda>p. (pr_sku p, pr_launch_date p)) ex_products_Q)) 30)) (3 / 4) = Some 150"
      "quantile (map w_units (window_summary (merge_launch ex_events_Q
              (map (\<lambda>p. (pr_sku p, pr_launch_date p)) ex_products_Q)) 30)) (1 / 2) = Some 1"
      "quantile (map w_units (window_summary (merge_launch ex_events_Q
              (map (\<lambda>p. (pr_sku p, pr_launch_date p)) ex_products_Q)) 30)) (3 / 4) = Some 1"
    by code_simp+
  from tQ w30 q have bQ:
      "revenue_p50 (get_benchmark ex_benchmarks_Q 30) = Some 50"
      "revenue_p75 (get_benchmark ex_benchmarks_Q 30) = Some 150"
      "units_p50 (get_benchmark ex_benchmarks_Q 30) = Some 1"
      "units_p75 (get_benchmark ex_benchmarks_Q 30) = Some 1"
    by simp_all
  have qN: "quantile (map w_revenue (window_summary (merge_launch ex_events
              (map (\<lambda>p. (pr_sku p, pr_launch_date p)) ex_products)) 30)) (1 / 2) = Some 0"
      "quantile (map w_revenue (window_summary (merge_launch ex_events
              (map (\<lambda>p. (pr_sku p, pr_launch_date p)) ex_products)) 30)) (3 / 4) = Some 50"
    by code_simp+
  from tN w30 qN have bN:
      "revenue_p50 ex_bench_30 = Some 0" "revenue_p75 ex_bench_30 = Some 50"
    unfolding ex_bench_30_def by simp_all
  have u: "unique (map np_sku ex_new_products_Q) = [''N'', ''Q'', ''Z'']"
      "unique (map np_sku ex_new_products) = [''N'']"
    by code_simp+
  from tQ u(1) have kQ: "map ss_sku ex_scores_Q = [''N'', ''Q'', ''Z'']"
    by simp
  from tN u(2) have kN: "map ss_sku ex_scores = [''N'']"
    by simp
  from kQ have lQ: "length ex_scores_Q = 3"
    by (metis length_map length_Cons list.size(3) numeral_3_eq_3)
  from kN have lN: "length ex_scores = 1"
    by (metis length_map length_Cons list.size(3) One_nat_def)
  have mQ: "ex_scores_Q ! 0 \<in> set ex_scores_Q" "ex_scores_Q ! 1 \<in> set ex_scores_Q"
      "ex_scores_Q ! 2 \<in> set ex_scores_Q"
    using lQ by simp_all
  have mN: "ex_scores ! 0 \<in> set ex_scores"
    using lN by simp
  have sQ: "ss_sku (ex_scores_Q ! 0) = ''N''" "ss_sku (ex_scores_Q ! 1) = ''Q''"
      "ss_sku (ex_scores_Q ! 2) = ''Z''"
    using kQ lQ nth_map [of 0 ex_scores_Q ss_sku] nth_map [of 1 ex_scores_Q ss_sku]
      nth_map [of 2 ex_scores_Q ss_sku] by simp_all
  have sN: "ss_sku (ex_scores ! 0) = ''N''"
    using kN lN nth_map [of 0 ex_scores ss_sku] by simp
  have first: "wr_window (rs ! 0) = 30 \<and> rs ! 0 \<in> set rs"
    if "map wr_window rs = ex_windows" for rs :: "window_result list"
  proof -
    from that have "length rs = 3"
      by (metis length_map ex_windows_def length_Cons list.size(3) numeral_3_eq_3)
    with that nth_map [of 0 rs wr_window] show ?thesis
      by (simp add: ex_windows_def)
  qed
  from tQ mQ(1) have wQ0: "map wr_window (ss_windows (ex_scores_Q ! 0)) = ex_windows" by blast
  from tQ mQ(2) have wQ1: "map wr_window (ss_windows (ex_scores_Q ! 1)) = ex_windows" by blast
  from tQ mQ(3) have wQ2: "map wr_window (ss_windows (ex_scores_Q ! 2)) = ex_windows" by blast
  from tN mN have wN0: "map wr_window (ss_windows (ex_scores ! 0)) = ex_windows" by blast
  note fQ0 = first [OF wQ0] and fQ1 = first [OF wQ1] and fQ2 = first [OF wQ2]
    and fN0 = first [OF wN0]
  have a: "sku_window_sales ex_new_products_Q ex_events_Q ''N'' 30
        = [\<lparr> e_sku = ''N'', e_date = Some 95, e_revenue = 50, e_units = 1 \<rparr>]"
      "sku_window_sales ex_new_products_Q ex_events_Q ''Q'' 30
        = [\<lparr> e_sku = ''Q'', e_date = Some 97, e_revenue = 300, e_units = 5 \<rparr>]"
      "sku_window_sales ex_new_products_Q ex_events_Q ''Z'' 30 = []"
      "sku_window_sales ex_new_products ex_events ''N'' 30
        = [\<lparr> e_sku = ''N'', e_date = Some 95, e_revenue = 50, e_units = 1 \<rparr>]"
    by code_simp+
  note iQ0 = tQ [THEN conjunct2, THEN conjunct1, THEN bspec, OF mQ(1), THEN conjunct2,
      THEN bspec, OF conjunct2 [OF fQ0], unfolded sQ(1) conjunct1 [OF fQ0] a(1) bQ]
  note iQ1 = tQ [THEN conjunct2, THEN conjunct1, THEN bspec, OF mQ(2), THEN conjunct2,
      THEN bspec, OF conjunct2 [OF fQ1], unfolded sQ(2) conjunct1 [OF fQ1] a(2) bQ]
  note iQ2 = tQ [THEN conjunct2, THEN conjunct1, THEN bspec, OF mQ(3), THEN conjunct2,
      THEN bspec, OF conjunct2 [OF fQ2], unfolded sQ(3) conjunct1 [OF fQ2] a(3) bQ]
  note iN0 = tN [THEN conjunct2, THEN conjunct1, THEN bspec, OF mN, THEN conjunct2,
      THEN bspec, OF conjunct2 [OF fN0], unfolded sN conjunct1 [OF fN0] a(4),
      folded ex_bench_30_def, unfolded bN]
  from iQ0 have rQ0:
    "wr_revenue (ss_windows (ex_scores_Q ! 0) ! 0) = 50"
    "wr_revenue_score (ss_windows (ex_scores_Q ! 0) ! 0) = 1 / 3"
    "wr_units (ss_windows (ex_scores_Q ! 0) ! 0) = 1"
    "wr_units_score (ss_windows (ex_scores_Q ! 0) ! 0) = 1"
    by simp_all
  from iQ1 have rQ1:
    "wr_revenue (ss_windows (ex_scores_Q ! 1) ! 0) = 300"
    "wr_revenue_score (ss_windows (ex_scores_Q ! 1) ! 0) = 1"
    "wr_units (ss_windows (ex_scores_Q ! 1) ! 0) = 5"
    "wr_units_score (ss_windows (ex_scores_Q ! 1) ! 0) = 1"
    by simp_all
  from iQ2 have rQ2:
    "wr_revenue_score (ss_windows (ex_scores_Q ! 2) ! 0) = 0"
    "wr_units_score (ss_windows (ex_scores_Q ! 2) ! 0) = 0"
    by simp_all
  from iN0 have rN0:
    "wr_revenue (ss_windows (ex_scores ! 0) ! 0) = 50"
    "wr_revenue_score (ss_windows (ex_scores ! 0) ! 0) = 0"
    by simp_all
  from wQ0 have w0: "map wr_window (ss_windows (ex_scores_Q ! 0)) = [30, 60, 90]"
    by (simp add: ex_windows_def)
  from i kQ w0 bQ rQ0 rQ1 a(3) rQ2 bN rN0 show ?thesis
    by blast
qed

end
